theory Spec2Isabelle
  imports Main "HOL-Library.Sublist" "HOL-Library.Multiset"
begin

section \<open>Data model\<close>

text \<open>
  The program is \<^verbatim>\<open>src/app.py\<close>: an outline of chapters is requested from a language
  model, scene code is requested for every chapter, the code is rendered by the external
  tool \<^verbatim>\<open>manim\<close>, repaired once on failure, and the rendered clips are concatenated.

  Python text is modelled as \<open>string\<close>; a \<open>char\<close> stands for one code point in the range
  0..255. The calls of \<^verbatim>\<open>logging\<close> have no effect on the control flow and are left
  out; the messages shown through \<^verbatim>\<open>streamlit\<close> are kept as effects.
  \<^verbatim>\<open>generate_video\<close> is declared \<^verbatim>\<open>async\<close> but awaits nothing: it runs from start to
  end as an ordinary function.
\<close>

type_synonym path = string

record ChapterDescription =
  title :: string
  explanation :: string

record VideoOutline =
  outline_title :: string
  chapters :: "ChapterDescription list"

record ManimCode =
  code :: string

datatype agent = outline_agent | manim_agent | code_fixer_agent

text \<open>
  Exceptions. \<open>AgentError\<close> is whatever \<^verbatim>\<open>run_sync\<close> of an agent raises (tagged with the
  agent that raised it); \<open>OtherError\<close> is any other \<^verbatim>\<open>Exception\<close> raised by a library
  call. Both carry the text that \<^verbatim>\<open>str()\<close> gives for them. All of them are subclasses
  of \<^verbatim>\<open>Exception\<close>, so \<^verbatim>\<open>except Exception\<close> catches each.
\<close>

datatype exn =
    AgentError agent string
  | ValueError string
  | FileNotFoundError string
  | CalledProcessError int "string list" string string
  | TimeoutExpired "string list" nat
  | OtherError string

text \<open>The messages shown through \<^verbatim>\<open>streamlit\<close>, with the values formatted into them.\<close>

datatype message =
    Failed_to_generate_chapter nat string
  | No_clips_to_combine
  | Failed_to_combine_video string
  | No_video_chapters_were_successfully_generated
  | Video_generation_complete

text \<open>The observable effects of a run, in the order in which they happen.\<close>

datatype event =
    Run_Sync agent string
  | Temp_File path
  | Write_Text path string
  | Popen "string list"
  | Kill
  | Remove path
  | Open_Clip path
  | Concatenate "path list"
  | Write_Videofile path
  | Close_Final
  | Close_Clip path
  | St_warning message
  | St_error message
  | St_success message

text \<open>
  The world: the paths that exist on disk, the effects so far, and the clip handles that
  are open (opened by \<^verbatim>\<open>VideoFileClip\<close> and not yet closed).
\<close>

record world =
  disk :: "path set"
  trace :: "event list"
  open_clips :: "path list"

text \<open>
  What the child process does: how long it runs, what it returns and prints, and what is
  on disk when \<^verbatim>\<open>communicate\<close> returns or gives up.
\<close>

datatype run_time = After nat | Never

record child =
  run_time :: run_time
  returncode :: int
  stdout :: string
  stderr :: string
  disk_after :: "path set"

datatype tool_run =
    Not_Found
  | Spawn_Error string
  | Runs child

text \<open>
  The collaborators outside the program. Each may depend on everything that has happened
  so far (the world). A backend answers \<open>Inl msg\<close> when \<^verbatim>\<open>run_sync\<close> raises;
  \<open>temp_write\<close>, \<open>video_file_clip\<close>, \<open>concatenate_videoclips\<close> and \<open>write_videofile\<close>
  answer \<open>Some msg\<close> when the call raises. \<open>str_list\<close> is the text Python gives for a
  list of strings (\<^verbatim>\<open>'%s' % cmd\<close>), and \<open>signal_text\<close> the text it gives for the
  signal of a given number (\<^verbatim>\<open><Signals.SIGKILL: 9>\<close>, or \<^verbatim>\<open>unknown signal 200\<close>).
\<close>

record env =
  outline_backend :: "world \<Rightarrow> string \<Rightarrow> string + VideoOutline"
  manim_backend :: "world \<Rightarrow> string \<Rightarrow> string + ManimCode"
  fixer_backend :: "world \<Rightarrow> string \<Rightarrow> string + ManimCode"
  temp_name :: "world \<Rightarrow> path"
  temp_write :: "world \<Rightarrow> string \<Rightarrow> string option"
  manim :: "world \<Rightarrow> string list \<Rightarrow> tool_run"
  video_file_clip :: "world \<Rightarrow> path \<Rightarrow> string option"
  concatenate_videoclips :: "world \<Rightarrow> path list \<Rightarrow> string option"
  write_videofile :: "world \<Rightarrow> path list \<Rightarrow> path \<Rightarrow> string option"
  str_list :: "string list \<Rightarrow> string"
  signal_text :: "nat \<Rightarrow> string"

definition emit :: "event \<Rightarrow> world \<Rightarrow> world" where
  "emit e w = w\<lparr>trace := trace w @ [e]\<rparr>"

section \<open>The regular expression of \<^verbatim>\<open>extract_class_name\<close>\<close>

text \<open>
  \<^verbatim>\<open>\s\<close> and \<^verbatim>\<open>\w\<close> of Python's \<^verbatim>\<open>re\<close> on \<^verbatim>\<open>str\<close> patterns, on the code points
  0..255.
\<close>

definition is_space :: "char \<Rightarrow> bool" where
  "is_space c = (let n = (of_char c :: nat) in
     (9 \<le> n \<and> n \<le> 13) \<or> (28 \<le> n \<and> n \<le> 32) \<or> n = 133 \<or> n = 160)"

definition is_word :: "char \<Rightarrow> bool" where
  "is_word c = (let n = (of_char c :: nat) in
     (48 \<le> n \<and> n \<le> 57) \<or> (65 \<le> n \<and> n \<le> 90) \<or> n = 95 \<or> (97 \<le> n \<and> n \<le> 122) \<or>
     n = 170 \<or> n = 178 \<or> n = 179 \<or> n = 181 \<or> n = 185 \<or> n = 186 \<or>
     (188 \<le> n \<and> n \<le> 190) \<or> (192 \<le> n \<and> n \<le> 214) \<or> (216 \<le> n \<and> n \<le> 246) \<or>
     (248 \<le> n \<and> n \<le> 255))"

datatype cclass = Space | Word

fun in_class :: "cclass \<Rightarrow> char \<Rightarrow> bool" where
  "in_class Space c = is_space c"
| "in_class Word c = is_word c"

text \<open>
  The pieces the pattern is made of: a literal character, a greedy repetition of a
  character class with a least count (\<^verbatim>\<open>*\<close> is 0, \<^verbatim>\<open>+\<close> is 1), and such a repetition
  inside a capturing group.
\<close>

datatype piece = Lit char | Rep cclass nat | Cap cclass nat

fun first_some :: "(nat \<Rightarrow> 'a option) \<Rightarrow> nat list \<Rightarrow> 'a option" where
  "first_some f [] = None"
| "first_some f (j # js) = (case f j of Some r \<Rightarrow> Some r | None \<Rightarrow> first_some f js)"

text \<open>
  The counts a greedy repetition tries, longest first: from the whole run of characters
  of the class down to the least count.
\<close>

definition counts :: "cclass \<Rightarrow> nat \<Rightarrow> string \<Rightarrow> nat list" where
  "counts k m s = rev [m ..< Suc (length (takeWhile (in_class k) s))]"

text \<open>
  Matching at the start of the text, by backtracking; the result is the list of the
  captured groups of the first way that matches.
\<close>

fun rx_match :: "piece list \<Rightarrow> string \<Rightarrow> string list option" where
  "rx_match [] s = Some []"
| "rx_match (Lit c # ps) s =
     (case s of [] \<Rightarrow> None | x # xs \<Rightarrow> if x = c then rx_match ps xs else None)"
| "rx_match (Rep k m # ps) s = first_some (\<lambda>j. rx_match ps (drop j s)) (counts k m s)"
| "rx_match (Cap k m # ps) s =
     first_some (\<lambda>j. map_option (\<lambda>gs. take j s # gs) (rx_match ps (drop j s))) (counts k m s)"

text \<open>\<^verbatim>\<open>re.search\<close>: the first position of the text at which the pattern matches.\<close>

fun rx_search :: "piece list \<Rightarrow> string \<Rightarrow> string list option" where
  "rx_search ps [] = rx_match ps []"
| "rx_search ps (x # xs) =
     (case rx_match ps (x # xs) of Some gs \<Rightarrow> Some gs | None \<Rightarrow> rx_search ps xs)"

text \<open>\<^verbatim>\<open>class\s+(\w+)\s*\(\s*\w*Scene\s*\):\<close>\<close>

definition scene_pattern :: "piece list" where
  "scene_pattern =
     map Lit ''class'' @ [Rep Space 1, Cap Word 1, Rep Space 0, Lit (CHR ''(''), Rep Space 0,
       Rep Word 0] @ map Lit ''Scene'' @ [Rep Space 0, Lit (CHR '')''), Lit (CHR '':'')]"

definition extract_class_name :: "string \<Rightarrow> exn + string" where
  "extract_class_name code_text =
     (case rx_search scene_pattern code_text of
        Some (g # gs) \<Rightarrow> Inr g
      | _ \<Rightarrow> Inl (ValueError ''Could not extract class name from Manim code.''))"

section \<open>The requests to the language model\<close>

definition run_sync ::
  "agent \<Rightarrow> (world \<Rightarrow> string \<Rightarrow> string + 'a) \<Rightarrow> string \<Rightarrow> world \<Rightarrow> (exn + 'a) \<times> world" where
  "run_sync a backend prompt w =
     (let w1 = emit (Run_Sync a prompt) w in
      case backend w1 prompt of
        Inl msg \<Rightarrow> (Inl (AgentError a msg), w1)
      | Inr result \<Rightarrow> (Inr result, w1))"

text \<open>\<^verbatim>\<open>f"title: {chapter.title}. Explanation: {chapter.explanation}"\<close>\<close>

definition chapter_prompt :: "ChapterDescription \<Rightarrow> string" where
  "chapter_prompt chapter = ''title: '' @ title chapter @ ''. Explanation: '' @ explanation chapter"

text \<open>\<^verbatim>\<open>f"Error: {error}\nCurrent Code:\n{code}"\<close>\<close>

definition fix_prompt :: "string \<Rightarrow> string \<Rightarrow> string" where
  "fix_prompt error code_text =
     ''Error: '' @ error @ [CHR 0x0A] @ ''Current Code:'' @ [CHR 0x0A] @ code_text"

definition generate_manim_code ::
  "env \<Rightarrow> ChapterDescription \<Rightarrow> world \<Rightarrow> (exn + string) \<times> world" where
  "generate_manim_code E chapter w =
     (case run_sync manim_agent (manim_backend E) (chapter_prompt chapter) w of
        (Inl e, w1) \<Rightarrow> (Inl e, w1)
      | (Inr result, w1) \<Rightarrow> (Inr (code result), w1))"

definition fix_manim_code ::
  "env \<Rightarrow> string \<Rightarrow> string \<Rightarrow> world \<Rightarrow> (exn + string) \<times> world" where
  "fix_manim_code E error code_text w =
     (case run_sync code_fixer_agent (fixer_backend E) (fix_prompt error code_text) w of
        (Inl e, w1) \<Rightarrow> (Inl e, w1)
      | (Inr result, w1) \<Rightarrow> (Inr (code result), w1))"

definition generate_video_outline ::
  "env \<Rightarrow> string \<Rightarrow> world \<Rightarrow> (exn + VideoOutline) \<times> world" where
  "generate_video_outline E concept w = run_sync outline_agent (outline_backend E) concept w"

section \<open>Rendering one chapter\<close>

text \<open>The decimal text of a number (\<^verbatim>\<open>%d\<close>).\<close>

fun show_nat :: "nat \<Rightarrow> string" where
  "show_nat n =
     (if n < 10 then [char_of (48 + n)] else show_nat (n div 10) @ [char_of (48 + n mod 10)])"

definition show_int :: "int \<Rightarrow> string" where
  "show_int k = (if k < 0 then ''-'' @ show_nat (nat (- k)) else show_nat (nat k))"

text \<open>
  \<^verbatim>\<open>str(e)\<close> of an exception. For \<^verbatim>\<open>CalledProcessError\<close> and \<^verbatim>\<open>TimeoutExpired\<close>
  it is the text that \<^verbatim>\<open>subprocess\<close> formats from the command and the return code or
  the timeout:
  \<^verbatim>\<open>"Command '%s' died with %r."\<close> for a negative return code,
  \<^verbatim>\<open>"Command '%s' returned non-zero exit status %d."\<close> otherwise, and
  \<^verbatim>\<open>"Command '%s' timed out after %s seconds"\<close>. The captured output and error
  streams are not part of it.
\<close>

fun str_exn :: "env \<Rightarrow> exn \<Rightarrow> string" where
  "str_exn E (AgentError a msg) = msg"
| "str_exn E (ValueError msg) = msg"
| "str_exn E (FileNotFoundError msg) = msg"
| "str_exn E (OtherError msg) = msg"
| "str_exn E (CalledProcessError rc cmd out err) =
     (if rc < 0
      then ''Command '' @ [CHR 0x27] @ str_list E cmd @ [CHR 0x27] @ '' died with '' @
           signal_text E (nat (- rc)) @ ''.''
      else ''Command '' @ [CHR 0x27] @ str_list E cmd @ [CHR 0x27] @
           '' returned non-zero exit status '' @ show_int rc @ ''.'')"
| "str_exn E (TimeoutExpired cmd t) =
     ''Command '' @ [CHR 0x27] @ str_list E cmd @ [CHR 0x27] @ '' timed out after '' @
     show_nat t @ '' seconds''"

text \<open>\<^verbatim>\<open>os.path.join\<close> of two components (POSIX).\<close>

definition os_path_join :: "path \<Rightarrow> path \<Rightarrow> path" where
  "os_path_join a b =
     (if b \<noteq> [] \<and> hd b = CHR ''/'' then b
      else if a = [] \<or> last a = CHR ''/'' then a @ b
      else a @ ''/'' @ b)"

definition os_path_exists :: "path \<Rightarrow> world \<Rightarrow> bool" where
  "os_path_exists p w = (p \<in> disk w)"

definition os_remove :: "path \<Rightarrow> world \<Rightarrow> world" where
  "os_remove p w = emit (Remove p) (w\<lparr>disk := disk w - {p}\<rparr>)"

text \<open>The timeout of \<^verbatim>\<open>process.communicate\<close>, in seconds.\<close>

definition render_timeout :: nat where
  "render_timeout = 60"

fun finishes_within :: "run_time \<Rightarrow> nat \<Rightarrow> bool" where
  "finishes_within (After d) t = (d \<le> t)"
| "finishes_within Never t = False"

text \<open>\<^verbatim>\<open>command = ["manim", temp_file_name, "-ql", "--disable_caching"]\<close>\<close>

definition manim_command :: "path \<Rightarrow> string list" where
  "manim_command temp_file_name = [''manim'', temp_file_name, ''-ql'', ''--disable_caching'']"

text \<open>
  The body of the \<^verbatim>\<open>try\<close> statement of \<^verbatim>\<open>create_video_from_code\<close> with its two
  handlers: \<open>None\<close> when it completes, \<open>Some e\<close> when the exception \<open>e\<close> leaves it.
  \<^verbatim>\<open>Popen\<close> raises \<^verbatim>\<open>FileNotFoundError\<close> when the tool is not installed, and the
  handler raises its own; \<^verbatim>\<open>communicate(timeout=60)\<close> raises \<^verbatim>\<open>TimeoutExpired\<close>
  when the child has not finished in time, and the handler kills the child and raises the
  exception again; a return code other than 0 raises \<^verbatim>\<open>CalledProcessError\<close>, which
  no handler of this statement catches.
\<close>

definition run_manim :: "env \<Rightarrow> path \<Rightarrow> world \<Rightarrow> exn option \<times> world" where
  "run_manim E temp_file_name w =
     (let command = manim_command temp_file_name in
      case manim E w command of
        Not_Found \<Rightarrow> (Some (FileNotFoundError ''Manim is not installed or not in PATH.''), w)
      | Spawn_Error msg \<Rightarrow> (Some (OtherError msg), w)
      | Runs c \<Rightarrow>
          (let w1 = (emit (Popen command) w)\<lparr>disk := disk_after c\<rparr> in
           if finishes_within (run_time c) render_timeout then
             (if returncode c \<noteq> 0
              then (Some (CalledProcessError (returncode c) command (stdout c) (stderr c)), w1)
              else (None, w1))
           else (Some (TimeoutExpired command render_timeout), emit Kill w1)))"

text \<open>The \<^verbatim>\<open>finally\<close> clause.\<close>

definition cleanup :: "path \<Rightarrow> world \<Rightarrow> world" where
  "cleanup temp_file_name w =
     (if os_path_exists temp_file_name w then os_remove temp_file_name w else w)"

text \<open>
  \<^verbatim>\<open>tempfile.NamedTemporaryFile(delete=False, suffix=".py", mode="w")\<close>: the file is
  created under the name the system chooses.
\<close>

definition named_temporary_file :: "env \<Rightarrow> world \<Rightarrow> path \<times> world" where
  "named_temporary_file E w =
     (let temp_file_name = temp_name E w in
      (temp_file_name,
       (emit (Temp_File temp_file_name) w)\<lparr>disk := insert temp_file_name (disk w)\<rparr>))"

text \<open>
  \<^verbatim>\<open>temp_file.write(code)\<close> and the end of the \<^verbatim>\<open>with\<close> block, which closes the file
  and, with \<^verbatim>\<open>delete=False\<close>, leaves it on disk. The write raises when the text cannot
  be encoded in the encoding of the locale, or cannot be stored.
\<close>

definition write_text :: "env \<Rightarrow> path \<Rightarrow> string \<Rightarrow> world \<Rightarrow> exn option \<times> world" where
  "write_text E temp_file_name text w =
     (case temp_write E w text of
        Some msg \<Rightarrow> (Some (OtherError msg), w)
      | None \<Rightarrow> (None, emit (Write_Text temp_file_name text) w))"

definition create_video_from_code ::
  "env \<Rightarrow> string \<Rightarrow> nat \<Rightarrow> world \<Rightarrow> (exn + path) \<times> world" where
  "create_video_from_code E code_text chapter_num w =
     (case named_temporary_file E w of
        (temp_file_name, w1) \<Rightarrow>
          (case write_text E temp_file_name code_text w1 of
             (Some e, w2) \<Rightarrow> (Inl e, w2)
           | (None, w2) \<Rightarrow>
               (case run_manim E temp_file_name w2 of
                  (Some e, w3) \<Rightarrow> (Inl e, cleanup temp_file_name w3)
                | (None, w3) \<Rightarrow>
                    (let w4 = cleanup temp_file_name w3 in
                     case extract_class_name code_text of
                       Inl e \<Rightarrow> (Inl e, w4)
                     | Inr class_name \<Rightarrow>
                         (Inr (os_path_join ''./media/videos/temp/480p15/'' (class_name @ ''.mp4'')),
                          w4)))))"

section \<open>The chapters of \<^verbatim>\<open>generate_video\<close>\<close>

text \<open>The body of the \<^verbatim>\<open>try\<close> statement inside the \<^verbatim>\<open>while\<close> loop.\<close>

definition try_render :: "env \<Rightarrow> string \<Rightarrow> nat \<Rightarrow> world \<Rightarrow> (exn + path) \<times> world" where
  "try_render E manim_code chapter_num w =
     (case create_video_from_code E manim_code chapter_num w of
        (Inl e, w1) \<Rightarrow> (Inl e, w1)
      | (Inr video_file, w1) \<Rightarrow>
          (if os_path_exists video_file w1 then (Inr video_file, w1)
           else (Inl (FileNotFoundError ''Video file not created.''), w1)))"

text \<open>
  The \<^verbatim>\<open>while attempts < 2 and not success\<close> loop of chapter \<open>i\<close> (counted from 0). An
  exception of \<^verbatim>\<open>fix_manim_code\<close> is raised inside the handler and leaves the loop.
\<close>

function while_attempts ::
  "env \<Rightarrow> nat \<Rightarrow> string \<Rightarrow> nat \<Rightarrow> bool \<Rightarrow> path list \<Rightarrow> world \<Rightarrow> (exn + bool \<times> path list) \<times> world" where
  "while_attempts E i manim_code attempts success video_files w =
     (if attempts < 2 \<and> \<not> success then
        (case try_render E manim_code (i + 1) w of
           (Inr video_file, w1) \<Rightarrow>
             while_attempts E i manim_code (attempts + 1) True (video_files @ [video_file]) w1
         | (Inl e, w1) \<Rightarrow>
             (if attempts = 0 then
                (case fix_manim_code E (str_exn E e) manim_code w1 of
                   (Inl e', w2) \<Rightarrow> (Inl e', w2)
                 | (Inr fixed, w2) \<Rightarrow>
                     while_attempts E i fixed (attempts + 1) success video_files w2)
              else while_attempts E i manim_code (attempts + 1) success video_files w1))
      else (Inr (success, video_files), w))"
  by pat_completeness auto
termination
  by (relation "measure (\<lambda>(E, i, manim_code, attempts, success, video_files, w). 2 - attempts)") auto

text \<open>The body of the \<^verbatim>\<open>for\<close> loop, for chapter \<open>i\<close> (counted from 0).\<close>

definition chapter_body ::
  "env \<Rightarrow> nat \<Rightarrow> ChapterDescription \<Rightarrow> path list \<Rightarrow> world \<Rightarrow> (exn + path list) \<times> world" where
  "chapter_body E i chapter video_files w =
     (case generate_manim_code E chapter w of
        (Inl e, w1) \<Rightarrow> (Inl e, w1)
      | (Inr manim_code, w1) \<Rightarrow>
          (case while_attempts E i manim_code 0 False video_files w1 of
             (Inl e, w2) \<Rightarrow> (Inl e, w2)
           | (Inr (success, video_files'), w2) \<Rightarrow>
               (if \<not> success
                then (Inr video_files',
                      emit (St_warning (Failed_to_generate_chapter (i + 1) (title chapter))) w2)
                else (Inr video_files', w2))))"

text \<open>\<^verbatim>\<open>for i, chapter in enumerate(outline.chapters)\<close>, from index \<open>i\<close> on.\<close>

fun for_chapters ::
  "env \<Rightarrow> nat \<Rightarrow> ChapterDescription list \<Rightarrow> path list \<Rightarrow> world \<Rightarrow> (exn + path list) \<times> world" where
  "for_chapters E i [] video_files w = (Inr video_files, w)"
| "for_chapters E i (chapter # rest) video_files w =
     (case chapter_body E i chapter video_files w of
        (Inl e, w1) \<Rightarrow> (Inl e, w1)
      | (Inr video_files', w1) \<Rightarrow> for_chapters E (i + 1) rest video_files' w1)"

section \<open>Combining the clips\<close>

text \<open>
  \<^verbatim>\<open>[VideoFileClip(vf) for vf in video_files if os.path.exists(vf)]\<close>: the clips opened so
  far are the accumulator.
\<close>

fun open_clips_of ::
  "env \<Rightarrow> path list \<Rightarrow> path list \<Rightarrow> world \<Rightarrow> (exn + path list) \<times> world" where
  "open_clips_of E [] clips w = (Inr clips, w)"
| "open_clips_of E (vf # vfs) clips w =
     (if os_path_exists vf w then
        (case video_file_clip E w vf of
           Some msg \<Rightarrow> (Inl (OtherError msg), w)
         | None \<Rightarrow>
             open_clips_of E vfs (clips @ [vf])
               ((emit (Open_Clip vf) w)\<lparr>open_clips := open_clips w @ [vf]\<rparr>))
      else open_clips_of E vfs clips w)"

text \<open>\<^verbatim>\<open>for clip in clips: clip.close()\<close>\<close>

fun close_clips :: "path list \<Rightarrow> world \<Rightarrow> world" where
  "close_clips [] w = w"
| "close_clips (clip # clips) w =
     close_clips clips ((emit (Close_Clip clip) w)\<lparr>open_clips := remove1 clip (open_clips w)\<rparr>)"

text \<open>
  The body of the \<^verbatim>\<open>try\<close> statement that combines the clips: \<open>Inr (Some path)\<close> is
  \<^verbatim>\<open>return final_path\<close>, \<open>Inr None\<close> is falling out of the statement.
\<close>

definition combine :: "env \<Rightarrow> path list \<Rightarrow> world \<Rightarrow> (exn + path option) \<times> world" where
  "combine E video_files w =
     (case open_clips_of E video_files [] w of
        (Inl e, w1) \<Rightarrow> (Inl e, w1)
      | (Inr clips, w1) \<Rightarrow>
          (let final_path = ''final_video.mp4'' in
           if clips \<noteq> [] then
             (case concatenate_videoclips E w1 clips of
                Some msg \<Rightarrow> (Inl (OtherError msg), w1)
              | None \<Rightarrow>
                  (let w2 = emit (Concatenate clips) w1 in
                   case write_videofile E w2 clips final_path of
                     Some msg \<Rightarrow> (Inl (OtherError msg), w2)
                   | None \<Rightarrow>
                       (let w3 = (emit (Write_Videofile final_path) w2)
                                   \<lparr>disk := insert final_path (disk w2)\<rparr>;
                            w4 = emit Close_Final w3;
                            w5 = close_clips clips w4
                        in (Inr (Some final_path), emit (St_success Video_generation_complete) w5))))
           else (Inr None, emit (St_warning No_clips_to_combine) w1)))"

text \<open>
  The part of \<^verbatim>\<open>generate_video\<close> after the chapters (lines 160 to 179): the
  \<^verbatim>\<open>if video_files\<close> statement with its \<^verbatim>\<open>try\<close> and handler, and the final
  \<^verbatim>\<open>return None\<close>.
\<close>

definition assemble :: "env \<Rightarrow> path list \<Rightarrow> world \<Rightarrow> (exn + path option) \<times> world" where
  "assemble E video_files w =
     (if video_files \<noteq> [] then
        (case combine E video_files w of
           (Inl e, w1) \<Rightarrow> (Inr None, emit (St_error (Failed_to_combine_video (str_exn E e))) w1)
         | (Inr (Some final_path), w1) \<Rightarrow> (Inr (Some final_path), w1)
         | (Inr None, w1) \<Rightarrow> (Inr None, w1))
      else (Inr None, emit (St_warning No_video_chapters_were_successfully_generated) w))"

section \<open>\<^verbatim>\<open>generate_video\<close>\<close>

text \<open>
  The result is \<open>Inl e\<close> when the exception \<open>e\<close> leaves \<^verbatim>\<open>generate_video\<close>, \<open>Inr None\<close>
  when it returns \<^verbatim>\<open>None\<close>, and \<open>Inr (Some path)\<close> when it returns the path of the video.
\<close>

definition generate_video :: "env \<Rightarrow> string \<Rightarrow> world \<Rightarrow> (exn + path option) \<times> world" where
  "generate_video E concept w =
     (case generate_video_outline E concept w of
        (Inl e, w1) \<Rightarrow> (Inl e, w1)
      | (Inr outline, w1) \<Rightarrow>
          (case for_chapters E 0 (chapters outline) [] w1 of
             (Inl e, w2) \<Rightarrow> (Inl e, w2)
           | (Inr video_files, w2) \<Rightarrow> assemble E video_files w2))"

section \<open>The pattern, read as a description of texts\<close>

text \<open>
  \<open>matches ps s gs\<close>: a prefix of \<open>s\<close> is made of the pieces \<open>ps\<close>, one after the
  other, and \<open>gs\<close> are the parts under the capturing pieces.
\<close>

fun matches :: "piece list \<Rightarrow> string \<Rightarrow> string list \<Rightarrow> bool" where
  "matches [] s gs = (gs = [])"
| "matches (Lit c # ps) s gs = (\<exists>xs. s = c # xs \<and> matches ps xs gs)"
| "matches (Rep k m # ps) s gs =
     (\<exists>u v. s = u @ v \<and> m \<le> length u \<and> list_all (in_class k) u \<and> matches ps v gs)"
| "matches (Cap k m # ps) s gs =
     (\<exists>u v gs'. s = u @ v \<and> m \<le> length u \<and> list_all (in_class k) u \<and> gs = u # gs' \<and> matches ps v gs')"


text \<open>
  What the pattern of line 89 describes, written out: at the start of the text stand the
  letters \<^verbatim>\<open>class\<close>, white space, the captured name, optional white space, and in
  parentheses (with optional white space) exactly one identifier that ends in
  \<^verbatim>\<open>Scene\<close>, closed by \<^verbatim>\<open>):\<close>. This is the form the code looks for; it is not
  Python's notion of a class declaration (see \<open>class_declaration\<close> below).
\<close>

definition pattern_text :: "string \<Rightarrow> string \<Rightarrow> bool" where
  "pattern_text s name \<longleftrightarrow>
     (\<exists>ws1 ws2 ws3 base ws4 rest.
        s = ''class'' @ ws1 @ name @ ws2 @ ''('' @ ws3 @ base @ ''Scene'' @ ws4 @ ''):'' @ rest \<and>
        ws1 \<noteq> [] \<and> list_all is_space ws1 \<and>
        name \<noteq> [] \<and> list_all is_word name \<and>
        list_all is_space ws2 \<and> list_all is_space ws3 \<and>
        list_all is_word base \<and> list_all is_space ws4)"


text \<open>
  The first place of a text at which the form stands captures \<open>name\<close>; no place of the
  text has the form.
\<close>

definition first_pattern_text :: "string \<Rightarrow> string \<Rightarrow> bool" where
  "first_pattern_text s name \<longleftrightarrow>
     (\<exists>before decl. s = before @ decl \<and> pattern_text decl name \<and>
        (\<forall>before' decl' name'. s = before' @ decl' \<and> length before' < length before
           \<longrightarrow> \<not> pattern_text decl' name'))"

definition no_pattern_text :: "string \<Rightarrow> bool" where
  "no_pattern_text s \<longleftrightarrow> (\<forall>before decl name. s = before @ decl \<longrightarrow> \<not> pattern_text decl name)"

section \<open>Class declarations, as the specification words them\<close>

text \<open>
  A class declaration that subclasses a Scene base, in the words of the specification and
  with the shape Python gives to a class header: the keyword \<^verbatim>\<open>class\<close>, white space,
  the name, the bases in parentheses, separated by commas, and a colon. A base is a Scene
  base when it is a name, possibly dotted, that ends in \<^verbatim>\<open>Scene\<close>.
\<close>

fun split_on :: "char \<Rightarrow> string \<Rightarrow> string list" where
  "split_on c [] = [[]]"
| "split_on c (x # xs) =
     (if x = c then [] # split_on c xs
      else (case split_on c xs of [] \<Rightarrow> [[x]] | y # ys \<Rightarrow> (x # y) # ys))"

definition strip :: "string \<Rightarrow> string" where
  "strip s = rev (dropWhile is_space (rev (dropWhile is_space s)))"

definition scene_base :: "string \<Rightarrow> bool" where
  "scene_base b \<longleftrightarrow> suffix ''Scene'' b \<and> list_all (\<lambda>c. is_word c \<or> c = CHR ''.'') b"

definition class_declaration :: "string \<Rightarrow> string \<Rightarrow> bool" where
  "class_declaration s name \<longleftrightarrow>
     (\<exists>ws1 ws2 bases ws3 rest.
        s = ''class'' @ ws1 @ name @ ws2 @ ''('' @ bases @ '')'' @ ws3 @ '':'' @ rest \<and>
        ws1 \<noteq> [] \<and> list_all is_space ws1 \<and>
        name \<noteq> [] \<and> list_all is_word name \<and>
        list_all is_space ws2 \<and> list_all is_space ws3 \<and>
        CHR '')'' \<notin> set bases \<and>
        (\<exists>b \<in> set (split_on (CHR '','') bases). scene_base (strip b)))"

text \<open>
  The first class declaration of a text that subclasses a Scene base has the name
  \<open>name\<close>. The keyword stands at the start of the text or after a character that is not
  part of a word.
\<close>

definition first_class_declaration :: "string \<Rightarrow> string \<Rightarrow> bool" where
  "first_class_declaration s name \<longleftrightarrow>
     (\<exists>before decl. s = before @ decl \<and> (before = [] \<or> \<not> is_word (last before)) \<and>
        class_declaration decl name \<and>
        (\<forall>before' decl' name'. s = before' @ decl' \<and> length before' < length before \<and>
           (before' = [] \<or> \<not> is_word (last before'))
           \<longrightarrow> \<not> class_declaration decl' name'))"

section \<open>Counting what a run does\<close>

text \<open>
  Every call of \<^verbatim>\<open>create_video_from_code\<close> starts by creating its temporary file, and
  every call of \<^verbatim>\<open>fix_manim_code\<close> starts by sending its request: the render attempts
  and the fix attempts made up to a world are counted by these effects.
\<close>

fun is_render :: "event \<Rightarrow> bool" where
  "is_render (Temp_File p) = True"
| "is_render e = False"

fun is_fix :: "event \<Rightarrow> bool" where
  "is_fix (Run_Sync code_fixer_agent prompt) = True"
| "is_fix e = False"

definition render_attempts :: "world \<Rightarrow> nat" where
  "render_attempts w = length (filter is_render (trace w))"

definition fix_attempts :: "world \<Rightarrow> nat" where
  "fix_attempts w = length (filter is_fix (trace w))"

text \<open>
  The exception \<open>e\<close> is one that a backend of the environment raises, for some request.
\<close>

definition backend_raises :: "env \<Rightarrow> exn \<Rightarrow> bool" where
  "backend_raises E e \<longleftrightarrow>
     (\<exists>w prompt msg.
        (e = AgentError outline_agent msg \<and> outline_backend E w prompt = Inl msg) \<or>
        (e = AgentError manim_agent msg \<and> manim_backend E w prompt = Inl msg) \<or>
        (e = AgentError code_fixer_agent msg \<and> fixer_backend E w prompt = Inl msg))"

text \<open>The exceptions that come from a backend.\<close>

fun is_agent_error :: "exn \<Rightarrow> bool" where
  "is_agent_error (AgentError a msg) = True"
| "is_agent_error e = False"




section \<open>Stubs of the collaborators\<close>

text \<open>
  The text of a list of strings that need no escapes, and the text of a signal without a
  name.
\<close>

fun join_commas :: "string list \<Rightarrow> string" where
  "join_commas [] = []"
| "join_commas [x] = x"
| "join_commas (x # y # zs) = x @ '', '' @ join_commas (y # zs)"

definition plain_list :: "string list \<Rightarrow> string" where
  "plain_list xs = ''['' @ join_commas (map (\<lambda>x. [CHR 0x27] @ x @ [CHR 0x27]) xs) @ '']''"

definition unknown_signal :: "nat \<Rightarrow> string" where
  "unknown_signal n = ''unknown signal '' @ show_nat n"

text \<open>An empty disk and nothing done yet.\<close>

definition world0 :: world where
  "world0 = \<lparr>disk = {}, trace = [], open_clips = []\<rparr>"

text \<open>
  Backends that answer, a tool that renders within 5 seconds, a video library that works.
  The outline has the chapters \<open>cs\<close>.
\<close>

definition stub_env :: "ChapterDescription list \<Rightarrow> env" where
  "stub_env cs =
     \<lparr>outline_backend = (\<lambda>w prompt. Inr \<lparr>outline_title = ''Gravity'', chapters = cs\<rparr>),
      manim_backend = (\<lambda>w prompt. Inr \<lparr>code = ''class FooScene(Scene):''\<rparr>),
      fixer_backend = (\<lambda>w prompt. Inr \<lparr>code = ''class BarScene(Scene):''\<rparr>),
      temp_name = (\<lambda>w. ''/tmp/tmp0.py''),
      temp_write = (\<lambda>w text. None),
      manim = (\<lambda>w command. Runs \<lparr>run_time = After 5, returncode = 0, stdout = [], stderr = [],
                 disk_after = insert ''./media/videos/temp/480p15/FooScene.mp4'' (disk w)\<rparr>),
      video_file_clip = (\<lambda>w p. None),
      concatenate_videoclips = (\<lambda>w ps. None),
      write_videofile = (\<lambda>w ps p. None),
      str_list = plain_list,
      signal_text = unknown_signal\<rparr>"

text \<open>The chapters of the examples.\<close>

definition chapter_A :: ChapterDescription where
  "chapter_A = \<lparr>title = ''A'', explanation = ''a''\<rparr>"

text \<open>A backend that raises, a video library that cannot write, a fixed temporary name.\<close>

definition no_answer :: "world \<Rightarrow> string \<Rightarrow> string + 'a" where
  [simp]: "no_answer w prompt = Inl ''no answer''"


definition temp_named :: "path \<Rightarrow> world \<Rightarrow> path" where
  [simp]: "temp_named t w = t"

text \<open>The texts of the examples for the class name.\<close>

definition two_declarations :: string where
  "two_declarations =
     ''class A(Scene, Mixin): pass'' @ [CHR 0x0A] @ ''class Main(Scene): pass''"

definition dotted_base :: string where
  "dotted_base = ''class A(manim.Scene): pass''"

text \<open>
  A comment in which the letters \<^verbatim>\<open>class\<close> end a longer word.
\<close>

definition subclass_comment :: string where
  "subclass_comment = ''# subclass Foo(Scene):''"

text \<open>A tool that ends with return code 1 on every input.\<close>

definition failing_tool :: "world \<Rightarrow> string list \<Rightarrow> tool_run" where
  "failing_tool w command =
     Runs \<lparr>run_time = After 5, returncode = 1, stdout = [], stderr = ''NameError'', disk_after = disk w\<rparr>"


text \<open>A locale encoding that has the ASCII characters only.\<close>

definition ascii_write :: "world \<Rightarrow> string \<Rightarrow> string option" where
  "ascii_write w text =
     (if list_all (\<lambda>c. (of_char c :: nat) < 128) text then None
      else Some ''ascii codec cannot encode character'')"

text \<open>A tool that never finishes.\<close>

definition hanging_tool :: "world \<Rightarrow> string list \<Rightarrow> tool_run" where
  "hanging_tool w command =
     Runs \<lparr>run_time = Never, returncode = 0, stdout = [], stderr = [], disk_after = disk w\<rparr>"







section \<open>Lemmas on the pattern\<close>

lemma word_not_space: "is_word c \<Longrightarrow> \<not> is_space c"
  by (auto simp: is_space_def is_word_def Let_def)

lemma first_some_Some: "first_some f js = Some r \<Longrightarrow> \<exists>j\<in>set js. f j = Some r"
  by (induction js) (auto split: option.splits)

lemma first_some_None: "first_some f js = None \<longleftrightarrow> (\<forall>j\<in>set js. f j = None)"
  by (induction js) (auto split: option.splits)

lemma set_counts: "set (counts k m s) = {j. m \<le> j \<and> j \<le> length (takeWhile (in_class k) s)}"
  by (auto simp: counts_def)

lemma take_in_run:
  assumes "j \<le> length (takeWhile P s)"
  shows "list_all P (take j s)"
proof -
  have "take j s = take j (takeWhile P s @ dropWhile P s)" by simp
  also have "\<dots> = take j (takeWhile P s)" using assms by (simp del: takeWhile_dropWhile_id)
  finally have "set (take j s) \<subseteq> set (takeWhile P s)" by (simp add: set_take_subset)
  then show ?thesis by (auto simp: list_all_iff dest: set_takeWhileD)
qed

lemma run_bound: "list_all P u \<Longrightarrow> length u \<le> length (takeWhile P (u @ v))"
  by (induction u) auto

lemma rx_match_sound: "rx_match ps s = Some gs \<Longrightarrow> matches ps s gs"
proof (induction ps s arbitrary: gs rule: rx_match.induct)
  case (1 s)
  then show ?case by simp
next
  case (2 c ps s)
  then show ?case by (cases s) (auto split: if_splits)
next
  case (3 k m ps s)
  from "3.prems" obtain j where j: "j \<in> set (counts k m s)" "rx_match ps (drop j s) = Some gs"
    by (auto dest: first_some_Some)
  then have "matches ps (drop j s) gs" using "3.IH" by blast
  moreover have "list_all (in_class k) (take j s)" using j(1) by (simp add: set_counts take_in_run)
  moreover have "m \<le> length (take j s)"
    using j(1) length_takeWhile_le [of "in_class k" s] by (simp add: set_counts)
  ultimately show ?case
    by (metis append_take_drop_id matches.simps(3))
next
  case (4 k m ps s)
  from "4.prems" obtain j gs' where j: "j \<in> set (counts k m s)"
    "rx_match ps (drop j s) = Some gs'" "gs = take j s # gs'"
    by (auto dest!: first_some_Some)
  then have "matches ps (drop j s) gs'" using "4.IH" by blast
  moreover have "list_all (in_class k) (take j s)" using j(1) by (simp add: set_counts take_in_run)
  moreover have "m \<le> length (take j s)"
    using j(1) length_takeWhile_le [of "in_class k" s] by (simp add: set_counts)
  ultimately show ?case using j(3)
    by (metis append_take_drop_id matches.simps(4))
qed

lemma rx_match_complete: "matches ps s gs \<Longrightarrow> rx_match ps s \<noteq> None"
proof (induction ps s arbitrary: gs rule: rx_match.induct)
  case (1 s)
  then show ?case by simp
next
  case (2 c ps s)
  then show ?case by auto
next
  case (3 k m ps s)
  then obtain u v where uv: "s = u @ v" "m \<le> length u" "list_all (in_class k) u" "matches ps v gs"
    by auto
  then have "length u \<in> set (counts k m s)" by (simp add: set_counts run_bound)
  moreover have "rx_match ps (drop (length u) s) \<noteq> None"
    using "3.IH" [of "length u" gs] uv by simp
  ultimately show ?case by (auto simp: first_some_None)
next
  case (4 k m ps s)
  then obtain u v gs' where uv: "s = u @ v" "m \<le> length u" "list_all (in_class k) u" "matches ps v gs'"
    by auto
  then have "length u \<in> set (counts k m s)" by (simp add: set_counts run_bound)
  moreover have "rx_match ps (drop (length u) s) \<noteq> None"
    using "4.IH" [of "length u" gs'] uv by simp
  ultimately show ?case by (auto simp: first_some_None)
qed

lemma matches_LitD: "matches (Lit c # ps) s gs \<Longrightarrow> \<exists>xs. s = c # xs \<and> matches ps xs gs"
  by simp

lemma matches_RepD:
  "matches (Rep k m # ps) s gs \<Longrightarrow>
     \<exists>u v. s = u @ v \<and> m \<le> length u \<and> list_all (in_class k) u \<and> matches ps v gs"
  by simp

lemma matches_CapD:
  "matches (Cap k m # ps) s gs \<Longrightarrow>
     \<exists>u v gs'. s = u @ v \<and> m \<le> length u \<and> list_all (in_class k) u \<and> gs = u # gs' \<and> matches ps v gs'"
  by simp

lemma matches_LitI: "matches ps xs gs \<Longrightarrow> matches (Lit c # ps) (c # xs) gs"
  by simp

lemma matches_RepI:
  "matches ps v gs \<Longrightarrow> m \<le> length u \<Longrightarrow> list_all (in_class k) u \<Longrightarrow> matches (Rep k m # ps) (u @ v) gs"
  by auto

lemma matches_CapI:
  "matches ps v gs \<Longrightarrow> m \<le> length u \<Longrightarrow> list_all (in_class k) u \<Longrightarrow>
     matches (Cap k m # ps) (u @ v) (u # gs)"
  by auto

lemma matches_lits:
  "matches (map Lit l @ ps) s gs \<longleftrightarrow> (\<exists>r. s = l @ r \<and> matches ps r gs)"
  by (induction l arbitrary: s) auto

lemma matches_NilD: "matches [] s gs \<Longrightarrow> gs = []"
  by simp

lemma matches_NilI: "matches [] s []"
  by simp

declare matches.simps [simp del]

lemma scene_pattern_split:
  "scene_pattern = map Lit ''class'' @ (Rep Space 1 # Cap Word 1 # Rep Space 0 # Lit (CHR ''('') # Rep Space 0 # Rep Word 0 # (map Lit ''Scene'' @ (Rep Space 0 # Lit (CHR '')'') # Lit (CHR '':'') # [])))"
  by (simp add: scene_pattern_def)

lemma matches_scene_pattern_D:
  assumes "matches scene_pattern s gs"
  shows "\<exists>name. gs = [name] \<and> pattern_text s name"
proof -
  from assms obtain r1 where r1: "s = ''class'' @ r1"
    and m1: "matches (Rep Space 1 # Cap Word 1 # Rep Space 0 # Lit (CHR ''('') # Rep Space 0 # Rep Word 0 # (map Lit ''Scene'' @ (Rep Space 0 # Lit (CHR '')'') # Lit (CHR '':'') # []))) r1 gs"
    unfolding scene_pattern_split matches_lits by blast
  from matches_RepD [OF m1] obtain ws1 r2 where r2: "r1 = ws1 @ r2" "1 \<le> length ws1"
    "list_all (in_class Space) ws1" and m2: "matches (Cap Word 1 # Rep Space 0 # Lit (CHR ''('') # Rep Space 0 # Rep Word 0 # (map Lit ''Scene'' @ (Rep Space 0 # Lit (CHR '')'') # Lit (CHR '':'') # []))) r2 gs"
    by blast
  from matches_CapD [OF m2] obtain name r3 gs' where r3: "r2 = name @ r3" "1 \<le> length name"
    "list_all (in_class Word) name" "gs = name # gs'" and m3: "matches (Rep Space 0 # Lit (CHR ''('') # Rep Space 0 # Rep Word 0 # (map Lit ''Scene'' @ (Rep Space 0 # Lit (CHR '')'') # Lit (CHR '':'') # []))) r3 gs'"
    by blast
  from matches_RepD [OF m3] obtain ws2 r4 where r4: "r3 = ws2 @ r4" "list_all (in_class Space) ws2"
    and m4: "matches (Lit (CHR ''('') # Rep Space 0 # Rep Word 0 # (map Lit ''Scene'' @ (Rep Space 0 # Lit (CHR '')'') # Lit (CHR '':'') # []))) r4 gs'"
    by blast
  from matches_LitD [OF m4] obtain r5 where r5: "r4 = CHR ''('' # r5"
    and m5: "matches (Rep Space 0 # Rep Word 0 # (map Lit ''Scene'' @ (Rep Space 0 # Lit (CHR '')'') # Lit (CHR '':'') # []))) r5 gs'"
    by blast
  from matches_RepD [OF m5] obtain ws3 r6 where r6: "r5 = ws3 @ r6" "list_all (in_class Space) ws3"
    and m6: "matches (Rep Word 0 # (map Lit ''Scene'' @ (Rep Space 0 # Lit (CHR '')'') # Lit (CHR '':'') # []))) r6 gs'"
    by blast
  from matches_RepD [OF m6] obtain base r7 where r7: "r6 = base @ r7" "list_all (in_class Word) base"
    and m7: "matches (map Lit ''Scene'' @ (Rep Space 0 # Lit (CHR '')'') # Lit (CHR '':'') # [])) r7 gs'"
    by blast
  from m7 obtain r8 where r8: "r7 = ''Scene'' @ r8"
    and m8: "matches (Rep Space 0 # Lit (CHR '')'') # Lit (CHR '':'') # []) r8 gs'"
    unfolding matches_lits by blast
  from matches_RepD [OF m8] obtain ws4 r9 where r9: "r8 = ws4 @ r9" "list_all (in_class Space) ws4"
    and m9: "matches (Lit (CHR '')'') # Lit (CHR '':'') # []) r9 gs'"
    by blast
  from matches_LitD [OF m9] obtain r10 where r10: "r9 = CHR '')'' # r10"
    and m10: "matches (Lit (CHR '':'') # []) r10 gs'"
    by blast
  from matches_LitD [OF m10] obtain rest where rest: "r10 = CHR '':'' # rest"
    and m11: "matches [] rest gs'"
    by blast
  have gs': "gs' = []" using m11 by (rule matches_NilD)
  have "s = ''class'' @ ws1 @ name @ ws2 @ ''('' @ ws3 @ base @ ''Scene'' @ ws4 @ ''):'' @ rest"
    unfolding r1 r2(1) r3(1) r4(1) r5 r6(1) r7(1) r8 r9(1) r10 rest by simp
  moreover have "ws1 \<noteq> []" "name \<noteq> []" using r2(2) r3(2) by auto
  moreover have "list_all is_space ws1" "list_all is_word name" "list_all is_space ws2"
    "list_all is_space ws3" "list_all is_word base" "list_all is_space ws4"
    using r2(3) r3(3) r4(2) r6(2) r7(2) r9(2) by (simp_all add: list_all_iff)
  ultimately have "pattern_text s name"
    unfolding pattern_text_def by blast
  then show ?thesis using r3(4) gs' by simp
qed

lemma matches_scene_pattern_I:
  assumes "pattern_text s name"
  shows "matches scene_pattern s [name]"
proof -
  from assms obtain ws1 ws2 ws3 base ws4 rest where
    s: "s = ''class'' @ ws1 @ name @ ws2 @ ''('' @ ws3 @ base @ ''Scene'' @ ws4 @ ''):'' @ rest"
    and c: "ws1 \<noteq> []" "list_all is_space ws1" "name \<noteq> []" "list_all is_word name"
      "list_all is_space ws2" "list_all is_space ws3" "list_all is_word base" "list_all is_space ws4"
    unfolding pattern_text_def by blast
  have k: "list_all (in_class Space) ws1" "list_all (in_class Word) name"
    "list_all (in_class Space) ws2" "list_all (in_class Space) ws3"
    "list_all (in_class Word) base" "list_all (in_class Space) ws4"
    using c by (simp_all add: list_all_iff)
  have l: "1 \<le> length ws1" "1 \<le> length name" using c(1,3) by (auto simp: Suc_le_eq)
  have z: "\<And>u::string. 0 \<le> length u" by simp
  have m10: "matches (Lit (CHR '':'') # []) (CHR '':'' # rest) []"
    by (rule matches_LitI [OF matches_NilI])
  have m9: "matches (Lit (CHR '')'') # Lit (CHR '':'') # []) (CHR '')'' # CHR '':'' # rest) []"
    by (rule matches_LitI [OF m10])
  have m8: "matches (Rep Space 0 # Lit (CHR '')'') # Lit (CHR '':'') # []) (ws4 @ CHR '')'' # CHR '':'' # rest) []"
    by (rule matches_RepI [OF m9 z k(6)])
  have m7: "matches (map Lit ''Scene'' @ (Rep Space 0 # Lit (CHR '')'') # Lit (CHR '':'') # [])) (''Scene'' @ ws4 @ CHR '')'' # CHR '':'' # rest) []"
    unfolding matches_lits using m8 by blast
  have m6: "matches (Rep Word 0 # (map Lit ''Scene'' @ (Rep Space 0 # Lit (CHR '')'') # Lit (CHR '':'') # []))) (base @ ''Scene'' @ ws4 @ CHR '')'' # CHR '':'' # rest) []"
    by (rule matches_RepI [OF m7 z k(5)])
  have m5: "matches (Rep Space 0 # Rep Word 0 # (map Lit ''Scene'' @ (Rep Space 0 # Lit (CHR '')'') # Lit (CHR '':'') # []))) (ws3 @ base @ ''Scene'' @ ws4 @ CHR '')'' # CHR '':'' # rest) []"
    by (rule matches_RepI [OF m6 z k(4)])
  have m4: "matches (Lit (CHR ''('') # Rep Space 0 # Rep Word 0 # (map Lit ''Scene'' @ (Rep Space 0 # Lit (CHR '')'') # Lit (CHR '':'') # []))) (CHR ''('' # ws3 @ base @ ''Scene'' @ ws4 @ CHR '')'' # CHR '':'' # rest) []"
    by (rule matches_LitI [OF m5])
  have m3: "matches (Rep Space 0 # Lit (CHR ''('') # Rep Space 0 # Rep Word 0 # (map Lit ''Scene'' @ (Rep Space 0 # Lit (CHR '')'') # Lit (CHR '':'') # []))) (ws2 @ CHR ''('' # ws3 @ base @ ''Scene'' @ ws4 @ CHR '')'' # CHR '':'' # rest) []"
    by (rule matches_RepI [OF m4 z k(3)])
  have m2: "matches (Cap Word 1 # Rep Space 0 # Lit (CHR ''('') # Rep Space 0 # Rep Word 0 # (map Lit ''Scene'' @ (Rep Space 0 # Lit (CHR '')'') # Lit (CHR '':'') # []))) (name @ ws2 @ CHR ''('' # ws3 @ base @ ''Scene'' @ ws4 @ CHR '')'' # CHR '':'' # rest) [name]"
    by (rule matches_CapI [OF m3 l(2) k(2)])
  have m1: "matches (Rep Space 1 # Cap Word 1 # Rep Space 0 # Lit (CHR ''('') # Rep Space 0 # Rep Word 0 # (map Lit ''Scene'' @ (Rep Space 0 # Lit (CHR '')'') # Lit (CHR '':'') # []))) (ws1 @ name @ ws2 @ CHR ''('' # ws3 @ base @ ''Scene'' @ ws4 @ CHR '')'' # CHR '':'' # rest) [name]"
    by (rule matches_RepI [OF m2 l(1) k(1)])
  have "s = ''class'' @ (ws1 @ name @ ws2 @ CHR ''('' # ws3 @ base @ ''Scene'' @ ws4 @ CHR '')'' # CHR '':'' # rest)"
    unfolding s by simp
  then show ?thesis
    unfolding scene_pattern_split matches_lits using m1 by blast
qed

lemma rx_search_None:
  "rx_search ps s = None \<longleftrightarrow> (\<forall>b d. s = b @ d \<longrightarrow> rx_match ps d = None)"
proof (induction s)
  case Nil
  then show ?case by simp
next
  case (Cons x xs)
  show ?case
  proof
    assume "rx_search ps (x # xs) = None"
    then have a: "rx_match ps (x # xs) = None" "rx_search ps xs = None"
      by (auto split: option.splits)
    show "\<forall>b d. x # xs = b @ d \<longrightarrow> rx_match ps d = None"
    proof (intro allI impI)
      fix b d assume "x # xs = b @ d"
      then show "rx_match ps d = None" using a Cons.IH
        by (cases b) auto
    qed
  next
    assume r: "\<forall>b d. x # xs = b @ d \<longrightarrow> rx_match ps d = None"
    then have "rx_match ps (x # xs) = None" by (metis append_Nil)
    moreover have "rx_search ps xs = None"
      unfolding Cons.IH using r by (metis append_Cons)
    ultimately show "rx_search ps (x # xs) = None" by simp
  qed
qed

lemma rx_search_Some:
  "rx_search ps s = Some gs \<Longrightarrow>
     \<exists>b d. s = b @ d \<and> rx_match ps d = Some gs \<and>
       (\<forall>b' d'. s = b' @ d' \<and> length b' < length b \<longrightarrow> rx_match ps d' = None)"
proof (induction s)
  case Nil
  then show ?case by simp
next
  case (Cons x xs)
  show ?case
  proof (cases "rx_match ps (x # xs)")
    case (Some gs')
    with Cons.prems have "gs' = gs" by simp
    with Some have "x # xs = [] @ (x # xs) \<and> rx_match ps (x # xs) = Some gs \<and>
       (\<forall>b' d'. x # xs = b' @ d' \<and> length b' < length ([]::string) \<longrightarrow> rx_match ps d' = None)"
      by simp
    then show ?thesis by blast
  next
    case None
    with Cons.prems have "rx_search ps xs = Some gs" by simp
    from Cons.IH [OF this] obtain b d where bd: "xs = b @ d" "rx_match ps d = Some gs"
      "\<forall>b' d'. xs = b' @ d' \<and> length b' < length b \<longrightarrow> rx_match ps d' = None"
      by blast
    have "\<forall>b' d'. x # xs = b' @ d' \<and> length b' < length (x # b) \<longrightarrow> rx_match ps d' = None"
    proof (intro allI impI)
      fix b' d' assume h: "x # xs = b' @ d' \<and> length b' < length (x # b)"
      show "rx_match ps d' = None"
      proof (cases b')
        case Nil
        then show ?thesis using h None by simp
      next
        case (Cons y ys)
        then show ?thesis using h bd(3) by auto
      qed
    qed
    moreover have "x # xs = (x # b) @ d" using bd(1) by simp
    ultimately show ?thesis using bd(2) by blast
  qed
qed

lemma takeWhile_run:
  assumes "list_all P u" "v = [] \<or> \<not> P (hd v)"
  shows "takeWhile P (u @ v) = u" "dropWhile P (u @ v) = v"
proof -
  have v: "takeWhile P v = []" "dropWhile P v = v" using assms(2) by (cases v; auto)+
  show "takeWhile P (u @ v) = u" using assms(1) v by (simp add: list_all_iff)
  show "dropWhile P (u @ v) = v" using assms(1) v by (simp add: list_all_iff)
qed

lemma open_paren: "\<not> is_word (CHR ''('')" "\<not> is_space (CHR ''('')"
  by (simp_all add: is_word_def is_space_def)

lemma pattern_text_name:
  assumes "pattern_text s name"
  shows "name = takeWhile is_word (dropWhile is_space (drop 5 s))"
proof -
  from assms obtain ws1 ws2 ws3 base ws4 rest where
    s: "s = ''class'' @ ws1 @ name @ ws2 @ ''('' @ ws3 @ base @ ''Scene'' @ ws4 @ ''):'' @ rest"
    and c: "ws1 \<noteq> []" "list_all is_space ws1" "name \<noteq> []" "list_all is_word name"
      "list_all is_space ws2"
    unfolding pattern_text_def by blast
  define r where "r = ws2 @ ''('' @ ws3 @ base @ ''Scene'' @ ws4 @ ''):'' @ rest"
  have d: "drop 5 s = ws1 @ (name @ r)" unfolding s r_def by simp
  have "\<not> is_space (hd (name @ r))" using c(3,4) by (cases name) (auto simp: word_not_space)
  then have 1: "dropWhile is_space (drop 5 s) = name @ r"
    unfolding d using takeWhile_run(2) [OF c(2)] by blast
  have "\<not> is_word (hd r)"
  proof (cases ws2)
    case Nil
    then show ?thesis by (simp add: r_def open_paren)
  next
    case (Cons y ys)
    then have "is_space (hd r)" using c(5) by (simp add: r_def)
    then show ?thesis using word_not_space by blast
  qed
  then have "takeWhile is_word (name @ r) = name"
    using takeWhile_run(1) [OF c(4)] by blast
  then show ?thesis using 1 by simp
qed

lemma pattern_text_unique: "pattern_text s n \<Longrightarrow> pattern_text s n' \<Longrightarrow> n = n'"
  using pattern_text_name by metis

lemma pattern_text_word: "pattern_text s n \<Longrightarrow> n \<noteq> [] \<and> list_all is_word n"
  unfolding pattern_text_def by blast

lemma rx_match_scene_Some:
  "rx_match scene_pattern s = Some gs \<Longrightarrow> \<exists>name. gs = [name] \<and> pattern_text s name"
  by (rule matches_scene_pattern_D [OF rx_match_sound])

lemma rx_match_scene_None: "rx_match scene_pattern s = None \<Longrightarrow> \<not> pattern_text s name"
  using rx_match_complete [OF matches_scene_pattern_I] by blast

lemma rx_match_scene_iff: "rx_match scene_pattern s = Some [name] \<longleftrightarrow> pattern_text s name"
proof
  assume "rx_match scene_pattern s = Some [name]"
  then show "pattern_text s name" using rx_match_scene_Some by blast
next
  assume d: "pattern_text s name"
  then obtain gs where gs: "rx_match scene_pattern s = Some gs"
    using rx_match_scene_None by (cases "rx_match scene_pattern s") blast+
  then obtain n where "gs = [n]" "pattern_text s n" using rx_match_scene_Some by blast
  then show "rx_match scene_pattern s = Some [name]" using gs d pattern_text_unique by blast
qed

lemma rx_match_scene_None_iff:
  "rx_match scene_pattern s = None \<longleftrightarrow> (\<forall>name. \<not> pattern_text s name)"
proof
  assume "rx_match scene_pattern s = None"
  then show "\<forall>name. \<not> pattern_text s name" using rx_match_scene_None by blast
next
  assume "\<forall>name. \<not> pattern_text s name"
  then show "rx_match scene_pattern s = None"
    using rx_match_scene_Some by (cases "rx_match scene_pattern s") blast+
qed

lemma extract_class_name_Inr: "extract_class_name s = Inr name \<longleftrightarrow> first_pattern_text s name"
proof
  assume "extract_class_name s = Inr name"
  then obtain gs where "rx_search scene_pattern s = Some (name # gs)"
    by (auto simp: extract_class_name_def split: option.splits list.splits)
  from rx_search_Some [OF this] obtain b d where bd: "s = b @ d"
    "rx_match scene_pattern d = Some (name # gs)"
    "\<forall>b' d'. s = b' @ d' \<and> length b' < length b \<longrightarrow> rx_match scene_pattern d' = None"
    by blast
  from rx_match_scene_Some [OF bd(2)] have "pattern_text d name" by simp
  then show "first_pattern_text s name"
    unfolding first_pattern_text_def using bd(1,3) rx_match_scene_None by blast
next
  assume "first_pattern_text s name"
  then obtain b d where bd: "s = b @ d" "pattern_text d name"
    "\<forall>b' d' name'. s = b' @ d' \<and> length b' < length b \<longrightarrow> \<not> pattern_text d' name'"
    unfolding first_pattern_text_def by blast
  have "rx_match scene_pattern d = Some [name]" using bd(2) by (simp add: rx_match_scene_iff)
  then have "rx_search scene_pattern s \<noteq> None" using bd(1) by (auto simp: rx_search_None)
  then obtain gs where gs: "rx_search scene_pattern s = Some gs" by blast
  from rx_search_Some [OF this] obtain b2 d2 where b2: "s = b2 @ d2"
    "rx_match scene_pattern d2 = Some gs"
    "\<forall>b' d'. s = b' @ d' \<and> length b' < length b2 \<longrightarrow> rx_match scene_pattern d' = None"
    by blast
  from rx_match_scene_Some [OF b2(2)] obtain n where n: "gs = [n]" "pattern_text d2 n" by blast
  have "\<not> length b2 < length b" using bd(3) b2(1) n(2) by blast
  moreover have "\<not> length b < length b2"
    using b2(3) bd(1) \<open>rx_match scene_pattern d = Some [name]\<close> by fastforce
  ultimately have "length b = length b2" by simp
  then have "d = d2" using bd(1) b2(1) by simp
  then have "n = name" using n(2) bd(2) pattern_text_unique by blast
  then show "extract_class_name s = Inr name" using gs n(1) by (simp add: extract_class_name_def)
qed

lemma extract_class_name_Inl:
  "extract_class_name s = Inl e \<longleftrightarrow>
     no_pattern_text s \<and> e = ValueError ''Could not extract class name from Manim code.''"
proof -
  have "rx_search scene_pattern s = None \<longleftrightarrow> no_pattern_text s"
    unfolding rx_search_None no_pattern_text_def rx_match_scene_None_iff by blast
  moreover have "\<And>gs. rx_search scene_pattern s = Some gs \<Longrightarrow> \<exists>n. gs = [n]"
    using rx_search_Some rx_match_scene_Some by blast
  ultimately show ?thesis
    by (cases "rx_search scene_pattern s") (auto simp: extract_class_name_def)
qed

section \<open>Lemmas on the operations\<close>

lemma emit_simps [simp]:
  "trace (emit e w) = trace w @ [e]" "disk (emit e w) = disk w" "open_clips (emit e w) = open_clips w"
  by (simp_all add: emit_def)

lemma render_attempts_emit [simp]:
  "render_attempts (emit e w) = render_attempts w + (if is_render e then 1 else 0)"
  by (simp add: render_attempts_def)

lemma fix_attempts_emit [simp]:
  "fix_attempts (emit e w) = fix_attempts w + (if is_fix e then 1 else 0)"
  by (simp add: fix_attempts_def)

lemma attempts_disk_update [simp]:
  "render_attempts (w\<lparr>disk := d\<rparr>) = render_attempts w" "fix_attempts (w\<lparr>disk := d\<rparr>) = fix_attempts w"
  by (simp_all add: render_attempts_def fix_attempts_def)

lemma run_sync_world: "run_sync a b p w = (r, w') \<Longrightarrow> w' = emit (Run_Sync a p) w"
  by (auto simp: run_sync_def Let_def split: sum.splits)

lemma run_sync_Inl:
  "run_sync a b p w = (Inl e, w') \<Longrightarrow> \<exists>msg. e = AgentError a msg \<and> b w' p = Inl msg"
  by (auto simp: run_sync_def Let_def split: sum.splits)

lemma generate_manim_code_world:
  "generate_manim_code E c w = (r, w') \<Longrightarrow> w' = emit (Run_Sync manim_agent (chapter_prompt c)) w"
  by (auto simp: generate_manim_code_def split: prod.splits sum.splits dest: run_sync_world)

lemma generate_manim_code_Inl:
  "generate_manim_code E c w = (Inl e, w') \<Longrightarrow> \<exists>msg. e = AgentError manim_agent msg \<and> manim_backend E w' (chapter_prompt c) = Inl msg"
  by (auto simp: generate_manim_code_def split: prod.splits sum.splits dest: run_sync_Inl)

lemma fix_manim_code_world:
  "fix_manim_code E err c w = (r, w') \<Longrightarrow> w' = emit (Run_Sync code_fixer_agent (fix_prompt err c)) w"
  by (auto simp: fix_manim_code_def split: prod.splits sum.splits dest: run_sync_world)

lemma fix_manim_code_Inl:
  "fix_manim_code E err c w = (Inl e, w') \<Longrightarrow> \<exists>msg. e = AgentError code_fixer_agent msg \<and> fixer_backend E w' (fix_prompt err c) = Inl msg"
  by (auto simp: fix_manim_code_def split: prod.splits sum.splits dest: run_sync_Inl)

lemma run_manim_facts:
  assumes "run_manim E tmp w = (r, w')"
  shows "render_attempts w' = render_attempts w" "fix_attempts w' = fix_attempts w"
    "open_clips w' = open_clips w" "prefix (trace w) (trace w')"
    "r = Some e \<Longrightarrow> \<not> is_agent_error e"
  using assms
  by (auto simp: run_manim_def Let_def split: tool_run.splits if_splits)

lemma cleanup_facts:
  "render_attempts (cleanup tmp w) = render_attempts w" "fix_attempts (cleanup tmp w) = fix_attempts w"
  "open_clips (cleanup tmp w) = open_clips w" "prefix (trace w) (trace (cleanup tmp w))"
  "tmp \<notin> disk (cleanup tmp w)"
  by (auto simp: cleanup_def os_remove_def os_path_exists_def)

lemma extract_not_agent: "extract_class_name s = Inl e \<Longrightarrow> \<not> is_agent_error e"
  by (auto simp: extract_class_name_Inl)

lemma create_video_from_code_facts:
  assumes "create_video_from_code E c n w = (r, w')"
  shows "render_attempts w' = render_attempts w + 1" "fix_attempts w' = fix_attempts w"
    "open_clips w' = open_clips w" "prefix (trace w) (trace w')"
    "r = Inl e \<Longrightarrow> \<not> is_agent_error e"
proof -
  obtain tmp w1 where 1: "named_temporary_file E w = (tmp, w1)" by fastforce
  then have w1: "render_attempts w1 = render_attempts w + 1" "fix_attempts w1 = fix_attempts w"
    "open_clips w1 = open_clips w" "prefix (trace w) (trace w1)"
    by (auto simp: named_temporary_file_def Let_def)
  obtain x w2 where 2: "write_text E tmp c w1 = (x, w2)" by fastforce
  then have w2: "render_attempts w2 = render_attempts w1" "fix_attempts w2 = fix_attempts w1"
    "open_clips w2 = open_clips w1" "prefix (trace w1) (trace w2)" "\<And>e. x = Some e \<Longrightarrow> \<not> is_agent_error e"
    by (auto simp: write_text_def split: option.splits)
  obtain y w3 where 3: "run_manim E tmp w2 = (y, w3)" by fastforce
  note w3 = run_manim_facts [OF 3]
  note c = cleanup_facts [where tmp=tmp and w=w3]
  have r: "(r, w') = (case x of Some e \<Rightarrow> (Inl e, w2) | None \<Rightarrow>
      (case y of Some e \<Rightarrow> (Inl e, cleanup tmp w3) | None \<Rightarrow>
         (case extract_class_name c of Inl e \<Rightarrow> (Inl e, cleanup tmp w3)
          | Inr class_name \<Rightarrow> (Inr (os_path_join ''./media/videos/temp/480p15/'' (class_name @ ''.mp4'')), cleanup tmp w3))))"
    using assms 1 2 3 by (simp add: create_video_from_code_def Let_def split: option.splits)
  show "render_attempts w' = render_attempts w + 1" using r w1(1) w2(1) w3(1) c(1)
    by (auto split: option.splits sum.splits)
  show "fix_attempts w' = fix_attempts w" using r w1(2) w2(2) w3(2) c(2)
    by (auto split: option.splits sum.splits)
  show "open_clips w' = open_clips w" using r w1(3) w2(3) w3(3) c(3)
    by (auto split: option.splits sum.splits)
  have "prefix (trace w) (trace w2)" using w1(4) w2(4) by (rule prefix_order.trans)
  moreover have "prefix (trace w) (trace (cleanup tmp w3))"
    using w1(4) w2(4) w3(4) c(4) by (meson prefix_order.trans)
  ultimately show "prefix (trace w) (trace w')" using r
    by (auto split: option.splits sum.splits)
  show "r = Inl e \<Longrightarrow> \<not> is_agent_error e" using r w2(5) w3(5) extract_not_agent
    by (auto split: option.splits sum.splits)
qed

lemma try_render_facts:
  assumes "try_render E c n w = (r, w')"
  shows "render_attempts w' = render_attempts w + 1" "fix_attempts w' = fix_attempts w"
    "open_clips w' = open_clips w" "prefix (trace w) (trace w')"
    "r = Inl e \<Longrightarrow> \<not> is_agent_error e" "r = Inr p \<Longrightarrow> p \<in> disk w'"
proof -
  obtain r0 w0 where 0: "create_video_from_code E c n w = (r0, w0)" by fastforce
  note f = create_video_from_code_facts [OF 0]
  have w': "w' = w0" using assms 0 by (auto simp: try_render_def split: sum.splits if_splits)
  show "render_attempts w' = render_attempts w + 1" "fix_attempts w' = fix_attempts w"
    "open_clips w' = open_clips w" "prefix (trace w) (trace w')"
    using f w' by simp_all
  show "r = Inl e \<Longrightarrow> \<not> is_agent_error e" using assms 0 f(5)
    by (auto simp: try_render_def split: sum.splits if_splits)
  show "r = Inr p \<Longrightarrow> p \<in> disk w'" using assms 0
    by (auto simp: try_render_def os_path_exists_def split: sum.splits if_splits)
qed

lemma while_attempts_unfold:
  "while_attempts E i c 0 False vf w =
     (case try_render E c (i + 1) w of
        (Inr p, w1) \<Rightarrow> (Inr (True, vf @ [p]), w1)
      | (Inl e, w1) \<Rightarrow>
          (case fix_manim_code E (str_exn E e) c w1 of
             (Inl e', w2) \<Rightarrow> (Inl e', w2)
           | (Inr fixed, w2) \<Rightarrow>
               (case try_render E fixed (i + 1) w2 of
                  (Inr p, w3) \<Rightarrow> (Inr (True, vf @ [p]), w3)
                | (Inl e2, w3) \<Rightarrow> (Inr (False, vf), w3))))"
  by (simp split: prod.splits sum.splits)

section \<open>Lemmas on the renderer\<close>

lemma slash_not_word: "\<not> is_word (CHR ''/'')"
  by (simp add: is_word_def)

lemma extract_class_name_word:
  assumes "extract_class_name s = Inr n"
  shows "n \<noteq> []" "list_all is_word n"
proof -
  from assms have "first_pattern_text s n" by (simp add: extract_class_name_Inr)
  then obtain d where "pattern_text d n" unfolding first_pattern_text_def by blast
  then show "n \<noteq> []" "list_all is_word n" using pattern_text_word by blast+
qed

lemma video_path_join:
  assumes "extract_class_name s = Inr n"
  shows "os_path_join ''./media/videos/temp/480p15/'' (n @ ''.mp4'') = ''./media/videos/temp/480p15/'' @ n @ ''.mp4''"
proof -
  from extract_class_name_word [OF assms] have "hd n \<noteq> CHR ''/''"
    using slash_not_word by (cases n) auto
  then show ?thesis using extract_class_name_word(1) [OF assms]
    by (simp add: os_path_join_def)
qed

lemma create_video_from_code_Inr:
  assumes "fst (create_video_from_code E c n w) = Inr p"
  shows "\<exists>class_name. extract_class_name c = Inr class_name \<and>
           p = ''./media/videos/temp/480p15/'' @ class_name @ ''.mp4''"
  using assms
  by (auto simp: create_video_from_code_def Let_def video_path_join
           split: prod.splits option.splits sum.splits)

lemma stub_create:
  "fst (create_video_from_code ((stub_env [])\<lparr>temp_name := (temp_named t)\<rparr>) ''class FooScene(Scene):'' n world0)
     = Inr ''./media/videos/temp/480p15/FooScene.mp4''"
  by (simp add: create_video_from_code_def named_temporary_file_def write_text_def run_manim_def
       manim_command_def cleanup_def os_path_exists_def os_remove_def render_timeout_def
       stub_env_def world0_def Let_def emit_def extract_class_name_def scene_pattern_def counts_def
       is_space_def is_word_def os_path_join_def)

declare while_attempts.simps [simp del]

section \<open>Lemmas on the loops\<close>

text \<open>The definitions to unfold when a run is evaluated on stubs.\<close>

lemmas model_defs =
  generate_video_def assemble_def generate_video_outline_def run_sync_def generate_manim_code_def
  fix_manim_code_def chapter_body_def while_attempts_unfold try_render_def
  create_video_from_code_def named_temporary_file_def write_text_def run_manim_def
  manim_command_def cleanup_def os_path_exists_def os_remove_def render_timeout_def
  combine_def emit_def Let_def chapter_prompt_def fix_prompt_def

lemmas pattern_defs =
  extract_class_name_def scene_pattern_def counts_def is_space_def is_word_def os_path_join_def

lemma backend_raises_agent: "backend_raises E e \<Longrightarrow> is_agent_error e"
  by (auto simp: backend_raises_def)

lemma while_attempts_Inl:
  assumes "while_attempts E i c 0 False vf w = (Inl e, w')"
  shows "backend_raises E e"
  using assms unfolding while_attempts_unfold backend_raises_def
  by (auto split: prod.splits sum.splits dest!: fix_manim_code_Inl)

lemma chapter_body_Inl:
  assumes "chapter_body E i ch vf w = (Inl e, w')"
  shows "backend_raises E e"
proof -
  obtain r1 w1 where g: "generate_manim_code E ch w = (r1, w1)" by fastforce
  show ?thesis
  proof (cases r1)
    case (Inl e1)
    then have "e = e1" using assms g by (simp add: chapter_body_def)
    then show ?thesis using generate_manim_code_Inl g Inl unfolding backend_raises_def by blast
  next
    case (Inr c)
    obtain r2 w2 where l: "while_attempts E i c 0 False vf w1 = (r2, w2)" by fastforce
    then have "r2 = Inl e" using assms g Inr
      by (auto simp: chapter_body_def split: sum.splits prod.splits if_splits)
    then show ?thesis using l while_attempts_Inl by blast
  qed
qed

lemma for_chapters_Inl:
  "for_chapters E i cs vf w = (Inl e, w') \<Longrightarrow> backend_raises E e"
proof (induction cs arbitrary: i vf w)
  case Nil
  then show ?case by simp
next
  case (Cons ch cs)
  then show ?case
    by (auto split: prod.splits sum.splits dest: chapter_body_Inl)
qed

lemma generate_video_Inl:
  assumes "generate_video E concept w = (Inl e, w')"
  shows "backend_raises E e"
proof -
  obtain r1 w1 where o: "generate_video_outline E concept w = (r1, w1)" by fastforce
  show ?thesis
  proof (cases r1)
    case (Inl e1)
    then have "e = e1" using assms o by (simp add: generate_video_def)
    moreover have "\<exists>msg. e1 = AgentError outline_agent msg \<and> outline_backend E w1 concept = Inl msg"
      using o Inl run_sync_Inl unfolding generate_video_outline_def by blast
    ultimately show ?thesis unfolding backend_raises_def by blast
  next
    case (Inr outline)
    obtain r2 w2 where f: "for_chapters E 0 (chapters outline) [] w1 = (r2, w2)" by fastforce
    then have "r2 = Inl e" using assms o Inr
      by (auto simp: generate_video_def assemble_def
            split: sum.splits prod.splits if_splits option.splits)
    then show ?thesis using f for_chapters_Inl by blast
  qed
qed

lemma stub_never_raises: "\<not> backend_raises (stub_env cs) e"
  by (simp add: backend_raises_def stub_env_def)

lemma gen_fails:
  "generate_manim_code ((stub_env [chapter_A])\<lparr>manim_backend := no_answer\<rparr>) chapter_A world0
    = (Inl (AgentError manim_agent ''no answer''), emit (Run_Sync manim_agent (chapter_prompt chapter_A)) world0)"
  by (simp add: generate_manim_code_def run_sync_def Let_def)

lemma render_fails:
  "fst (try_render ((stub_env [chapter_A])\<lparr>manim := failing_tool, fixer_backend := no_answer\<rparr>) c (0 + 1) world0)
    = Inl (CalledProcessError 1 (manim_command ''/tmp/tmp0.py'') [] ''NameError'')"
  by (simp add: model_defs stub_env_def world0_def failing_tool_def)

lemma fix_fails:
  "fst (fix_manim_code ((stub_env [chapter_A])\<lparr>manim := failing_tool, fixer_backend := no_answer\<rparr>) err c w)
    = Inl (AgentError code_fixer_agent ''no answer'')"
  by (simp add: fix_manim_code_def run_sync_def Let_def)

lemma stub_run_manim:
  "fst (run_manim (stub_env cs) t w) = None"
  by (simp add: run_manim_def stub_env_def render_timeout_def Let_def)

lemma stub_write_text:
  "fst (write_text (stub_env cs) t c w) = None"
  by (simp add: write_text_def stub_env_def)

lemma run_manim_timeout:
  assumes "manim E w (manim_command t) = Runs c" "\<not> finishes_within (run_time c) 60"
  shows "run_manim E t w = (Some (TimeoutExpired (manim_command t) 60),
           emit Kill ((emit (Popen (manim_command t)) w)\<lparr>disk := disk_after c\<rparr>))"
  using assms by (simp add: run_manim_def render_timeout_def Let_def)

lemma trace_cleanup:
  "trace (cleanup t w) = trace w @ (if t \<in> disk w then [Remove t] else [])"
  by (simp add: cleanup_def os_path_exists_def os_remove_def)

lemma while_attempts_cases:
  assumes "while_attempts E i c 0 False vf w = (r, w')"
  obtains
    (first) p where "try_render E c (i + 1) w = (Inr p, w')" "r = Inr (True, vf @ [p])"
  | (fix_failed) e w1 e' where "try_render E c (i + 1) w = (Inl e, w1)"
      "fix_manim_code E (str_exn E e) c w1 = (Inl e', w')" "r = Inl e'"
  | (second) e w1 fixed w2 p where "try_render E c (i + 1) w = (Inl e, w1)"
      "fix_manim_code E (str_exn E e) c w1 = (Inr fixed, w2)"
      "try_render E fixed (i + 1) w2 = (Inr p, w')" "r = Inr (True, vf @ [p])"
  | (skipped) e w1 fixed w2 e2 where "try_render E c (i + 1) w = (Inl e, w1)"
      "fix_manim_code E (str_exn E e) c w1 = (Inr fixed, w2)"
      "try_render E fixed (i + 1) w2 = (Inl e2, w')" "r = Inr (False, vf)"
proof -
  obtain r1 w1 where 1: "try_render E c (i + 1) w = (r1, w1)" by fastforce
  show thesis
  proof (cases r1)
    case (Inr p)
    then show ?thesis using assms 1 first by (simp add: while_attempts_unfold)
  next
    case (Inl e)
    obtain r2 w2 where 2: "fix_manim_code E (str_exn E e) c w1 = (r2, w2)" by fastforce
    show ?thesis
    proof (cases r2)
      case (Inl e')
      then show ?thesis using assms 1 2 \<open>r1 = Inl e\<close> fix_failed
        by (simp add: while_attempts_unfold)
    next
      case (Inr fixed)
      obtain r3 w3 where 3: "try_render E fixed (i + 1) w2 = (r3, w3)" by fastforce
      show ?thesis
      proof (cases r3)
        case (Inl e2)
        then show ?thesis using assms 1 2 3 \<open>r1 = Inl e\<close> \<open>r2 = Inr fixed\<close> skipped
          by (simp add: while_attempts_unfold)
      next
        case (Inr p)
        then show ?thesis using assms 1 2 3 \<open>r1 = Inl e\<close> \<open>r2 = Inr fixed\<close> second
          by (simp add: while_attempts_unfold)
      qed
    qed
  qed
qed

lemma fix_manim_code_counts:
  assumes "fix_manim_code E err c w = (r, w')"
  shows "render_attempts w' = render_attempts w" "fix_attempts w' = fix_attempts w + 1"
    "trace w' = trace w @ [Run_Sync code_fixer_agent (fix_prompt err c)]"
  using fix_manim_code_world [OF assms] by simp_all




section \<open>Lemmas on combining the clips\<close>

lemma open_clips_of_disk:
  "open_clips_of E vfs clips w = (r, w') \<Longrightarrow> disk w' = disk w"
proof (induction vfs arbitrary: clips w)
  case Nil
  then show ?case by simp
next
  case (Cons vf vfs)
  then show ?case
    by (auto simp: os_path_exists_def split: if_splits option.splits)
qed

lemma open_clips_of_Inr:
  "open_clips_of E vfs clips w = (Inr cl, w') \<Longrightarrow>
     cl = clips @ filter (\<lambda>p. p \<in> disk w) vfs \<and>
     open_clips w' = open_clips w @ filter (\<lambda>p. p \<in> disk w) vfs \<and>
     trace w' = trace w @ map Open_Clip (filter (\<lambda>p. p \<in> disk w) vfs)"
proof (induction vfs arbitrary: clips w)
  case Nil
  then show ?case by simp
next
  case (Cons vf vfs)
  show ?case
  proof (cases "vf \<in> disk w")
    case False
    then show ?thesis using Cons by (simp add: os_path_exists_def)
  next
    case True
    let ?w1 = "(emit (Open_Clip vf) w)\<lparr>open_clips := open_clips w @ [vf]\<rparr>"
    from Cons.prems True have n: "video_file_clip E w vf = None"
      by (auto simp: os_path_exists_def split: option.splits)
    then have "open_clips_of E vfs (clips @ [vf]) ?w1 = (Inr cl, w')"
      using Cons.prems True by (simp add: os_path_exists_def)
    from Cons.IH [OF this] show ?thesis using True by simp
  qed
qed

lemma open_clips_of_Inl:
  "open_clips_of E vfs clips w = (Inl e, w') \<Longrightarrow> \<exists>msg. e = OtherError msg"
proof (induction vfs arbitrary: clips w)
  case Nil
  then show ?case by simp
next
  case (Cons vf vfs)
  then show ?case
    by (auto split: if_splits option.splits)
qed

lemma close_clips_facts:
  "trace (close_clips cl w) = trace w @ map Close_Clip cl"
  "disk (close_clips cl w) = disk w"
  "mset (open_clips (close_clips cl w)) = mset (open_clips w) - mset cl"
  by (induction cl arbitrary: w) (simp_all add: diff_diff_add)

lemma combine_Some:
  assumes "combine E vf w = (Inr (Some p), w')"
  shows "p = ''final_video.mp4''"
    "filter (\<lambda>q. q \<in> disk w) vf \<noteq> []"
    "trace w' = trace w @ map Open_Clip (filter (\<lambda>q. q \<in> disk w) vf) @
       [Concatenate (filter (\<lambda>q. q \<in> disk w) vf), Write_Videofile ''final_video.mp4'', Close_Final] @
       map Close_Clip (filter (\<lambda>q. q \<in> disk w) vf) @ [St_success Video_generation_complete]"
    "mset (open_clips w') = mset (open_clips w)"
    "disk w' = insert ''final_video.mp4'' (disk w)"
proof -
  obtain r1 w1 where o: "open_clips_of E vf [] w = (r1, w1)" by fastforce
  from assms o obtain cl where cl: "r1 = Inr cl"
    by (cases r1) (auto simp: combine_def)
  note f = open_clips_of_Inr [OF o [unfolded cl]] open_clips_of_disk [OF o]
  have c: "cl \<noteq> []" "concatenate_videoclips E w1 cl = None"
    "write_videofile E (emit (Concatenate cl) w1) cl ''final_video.mp4'' = None"
    using assms o cl by (auto simp: combine_def Let_def split: if_splits option.splits)
  then have w': "p = ''final_video.mp4''"
    "w' = emit (St_success Video_generation_complete)
       (close_clips cl (emit Close_Final ((emit (Write_Videofile ''final_video.mp4'')
          (emit (Concatenate cl) w1))\<lparr>disk := insert ''final_video.mp4'' (disk w1)\<rparr>)))"
    using assms o cl by (auto simp: combine_def Let_def)
  show "p = ''final_video.mp4''" by (rule w'(1))
  show "filter (\<lambda>q. q \<in> disk w) vf \<noteq> []" using c(1) f by simp
  show "trace w' = trace w @ map Open_Clip (filter (\<lambda>q. q \<in> disk w) vf) @
       [Concatenate (filter (\<lambda>q. q \<in> disk w) vf), Write_Videofile ''final_video.mp4'', Close_Final] @
       map Close_Clip (filter (\<lambda>q. q \<in> disk w) vf) @ [St_success Video_generation_complete]"
    unfolding w'(2) using f by (simp add: close_clips_facts)
  show "mset (open_clips w') = mset (open_clips w)"
    unfolding w'(2) using f by (simp add: close_clips_facts)
  show "disk w' = insert ''final_video.mp4'' (disk w)"
    unfolding w'(2) using f by (simp add: close_clips_facts)
qed

lemma combine_None:
  assumes "combine E vf w = (Inr None, w')"
  shows "filter (\<lambda>q. q \<in> disk w) vf = []" "w' = emit (St_warning No_clips_to_combine) w"
proof -
  obtain r1 w1 where o: "open_clips_of E vf [] w = (r1, w1)" by fastforce
  from assms o obtain cl where cl: "r1 = Inr cl"
    by (cases r1) (auto simp: combine_def)
  note f = open_clips_of_Inr [OF o [unfolded cl]]
  have c: "cl = []" "w' = emit (St_warning No_clips_to_combine) w1"
    using assms o cl by (auto simp: combine_def Let_def split: if_splits option.splits)
  show "filter (\<lambda>q. q \<in> disk w) vf = []" using c f by simp
  have "w1 = w" using o c(1) f cl
  proof (induction vf arbitrary: w)
    case Nil
    then show ?case by simp
  next
    case (Cons a vf)
    then show ?case by (auto simp: os_path_exists_def split: if_splits option.splits)
  qed
  then show "w' = emit (St_warning No_clips_to_combine) w" using c(2) by simp
qed

lemma prefix_emit: "prefix (trace w) (trace (emit e w))"
  by simp

lemma while_attempts_prefix:
  assumes "while_attempts E i c 0 False vf w = (r, w')"
  shows "prefix (trace w) (trace w')"
  using assms
proof (cases rule: while_attempts_cases)
  case (first p)
  then show ?thesis using try_render_facts(4) by blast
next
  case (fix_failed e w1 e')
  then show ?thesis
    using try_render_facts(4) [OF fix_failed(1)] fix_manim_code_counts(3) [OF fix_failed(2)]
    by (metis prefix_order.trans prefixI)
next
  case (second e w1 fixed w2 p)
  then show ?thesis
    using try_render_facts(4) [OF second(1)] fix_manim_code_counts(3) [OF second(2)]
      try_render_facts(4) [OF second(3)]
    by (metis prefix_order.trans prefixI)
next
  case (skipped e w1 fixed w2 e2)
  then show ?thesis
    using try_render_facts(4) [OF skipped(1)] fix_manim_code_counts(3) [OF skipped(2)]
      try_render_facts(4) [OF skipped(3)]
    by (metis prefix_order.trans prefixI)
qed

lemma chapter_body_prefix:
  assumes "chapter_body E i ch vf w = (r, w')"
  shows "prefix (trace w) (trace w')"
proof -
  obtain r1 w1 where g: "generate_manim_code E ch w = (r1, w1)" by fastforce
  have p1: "prefix (trace w) (trace w1)" using generate_manim_code_world [OF g] by simp
  show ?thesis
  proof (cases r1)
    case (Inl e)
    then show ?thesis using assms g p1 by (simp add: chapter_body_def)
  next
    case (Inr c)
    obtain r2 w2 where l: "while_attempts E i c 0 False vf w1 = (r2, w2)" by fastforce
    have p2: "prefix (trace w1) (trace w2)" using while_attempts_prefix [OF l] .
    have "w' = w2 \<or> (\<exists>e. w' = emit e w2)" using assms g Inr l
      by (auto simp: chapter_body_def split: sum.splits if_splits)
    then have "prefix (trace w2) (trace w')" by auto
    then show ?thesis using p1 p2 by (meson prefix_order.trans)
  qed
qed

lemma for_chapters_prefix:
  "for_chapters E i cs vf w = (r, w') \<Longrightarrow> prefix (trace w) (trace w')"
proof (induction cs arbitrary: i vf w)
  case Nil
  then show ?case by simp
next
  case (Cons ch cs)
  obtain r1 w1 where b: "chapter_body E i ch vf w = (r1, w1)" by fastforce
  have p1: "prefix (trace w) (trace w1)" using chapter_body_prefix [OF b] .
  show ?case
  proof (cases r1)
    case (Inl e)
    then show ?thesis using Cons.prems b p1 by simp
  next
    case (Inr vf')
    then have "for_chapters E (i + 1) cs vf' w1 = (r, w')" using Cons.prems b by simp
    from Cons.IH [OF this] show ?thesis using p1 by (meson prefix_order.trans)
  qed
qed

lemma generate_video_Some:
  assumes "generate_video E concept w = (Inr (Some p), w')"
  shows "p = ''final_video.mp4'' \<and> p \<in> disk w' \<and>
     (\<exists>before after. trace w' = trace w @ before @ [Write_Videofile ''final_video.mp4''] @ after)"
proof -
  obtain r1 w1 where o: "generate_video_outline E concept w = (r1, w1)" by fastforce
  then have p1: "prefix (trace w) (trace w1)"
    using run_sync_world unfolding generate_video_outline_def by fastforce
  from assms o obtain outline where r1: "r1 = Inr outline"
    by (cases r1) (auto simp: generate_video_def)
  obtain r2 w2 where f: "for_chapters E 0 (chapters outline) [] w1 = (r2, w2)" by fastforce
  have p2: "prefix (trace w1) (trace w2)" using for_chapters_prefix [OF f] .
  from assms o r1 f obtain vf where r2: "r2 = Inr vf"
    by (cases r2) (auto simp: generate_video_def)
  have c: "combine E vf w2 = (Inr (Some p), w')"
    using assms o r1 f r2
    by (auto simp: generate_video_def assemble_def
          split: if_splits prod.splits sum.splits option.splits)
  note s = combine_Some [OF c]
  from p1 p2 obtain evs where evs: "trace w2 = trace w @ evs"
    by (meson prefix_order.trans prefixE)
  have "trace w' = trace w @ (evs @ map Open_Clip (filter (\<lambda>q. q \<in> disk w2) vf) @
       [Concatenate (filter (\<lambda>q. q \<in> disk w2) vf)]) @ [Write_Videofile ''final_video.mp4''] @
       (Close_Final # map Close_Clip (filter (\<lambda>q. q \<in> disk w2) vf) @
         [St_success Video_generation_complete])"
    using s(3) evs by simp
  then show ?thesis using s(1,5) by blast
qed

lemma stub_run:
  "generate_video (stub_env [chapter_A]) ''gravity'' world0 =
     (Inr (Some ''final_video.mp4''),
      \<lparr>disk = {''final_video.mp4'', ''./media/videos/temp/480p15/FooScene.mp4''},
       trace = [Run_Sync outline_agent ''gravity'', Run_Sync manim_agent ''title: A. Explanation: a'',
         Temp_File ''/tmp/tmp0.py'', Write_Text ''/tmp/tmp0.py'' ''class FooScene(Scene):'',
         Popen [''manim'', ''/tmp/tmp0.py'', ''-ql'', ''--disable_caching''], Remove ''/tmp/tmp0.py'',
         Open_Clip ''./media/videos/temp/480p15/FooScene.mp4'',
         Concatenate [''./media/videos/temp/480p15/FooScene.mp4''],
         Write_Videofile ''final_video.mp4'', Close_Final,
         Close_Clip ''./media/videos/temp/480p15/FooScene.mp4'',
         St_success Video_generation_complete],
       open_clips = []\<rparr>)"
  by (simp add: model_defs pattern_defs stub_env_def world0_def chapter_A_def insert_commute)

lemma stub_run_again:
  "fst (generate_video (stub_env [chapter_A]) ''tides''
      (snd (generate_video (stub_env [chapter_A]) ''gravity'' world0)))
     = Inr (Some ''final_video.mp4'')"
  unfolding stub_run
  by (simp add: model_defs pattern_defs stub_env_def world0_def chapter_A_def)

section \<open>Lemmas on the video files\<close>













section \<open>Lemmas on class declarations\<close>

lemma two_declarations_first: "first_class_declaration two_declarations ''A''"
proof -
  have c: "class_declaration two_declarations ''A''"
    unfolding class_declaration_def
    apply (rule exI [of _ "'' ''"])
    apply (rule exI [of _ "[]"])
    apply (rule exI [of _ "''Scene, Mixin''"])
    apply (rule exI [of _ "[]"])
    apply (rule exI [of _ "'' pass'' @ [CHR 0x0A] @ ''class Main(Scene): pass''"])
    apply (simp add: two_declarations_def is_space_def is_word_def scene_base_def strip_def suffix_def)
    done
  show ?thesis
    unfolding first_class_declaration_def
    apply (rule exI [of _ "[]"])
    apply (rule exI [of _ two_declarations])
    using c apply simp
    done
qed

lemma dotted_base_first: "first_class_declaration dotted_base ''A''"
proof -
  have c: "class_declaration dotted_base ''A''"
    unfolding class_declaration_def
    apply (rule exI [of _ "'' ''"])
    apply (rule exI [of _ "[]"])
    apply (rule exI [of _ "''manim.Scene''"])
    apply (rule exI [of _ "[]"])
    apply (rule exI [of _ "'' pass''"])
    apply (simp add: dotted_base_def is_space_def is_word_def scene_base_def strip_def suffix_def)
    done
  show ?thesis
    unfolding first_class_declaration_def
    apply (rule exI [of _ "[]"])
    apply (rule exI [of _ dotted_base])
    using c apply simp
    done
qed

lemma class_declaration_keyword:
  "class_declaration decl name \<Longrightarrow> \<exists>r. decl = ''class'' @ r"
  unfolding class_declaration_def by blast

lemma subclass_comment_keyword:
  "subclass_comment = before @ ''class'' @ r \<Longrightarrow> before = ''# sub''"
  unfolding subclass_comment_def
  by (auto simp: Cons_eq_append_conv)

lemma subclass_comment_none: "\<not> first_class_declaration subclass_comment name"
proof
  assume "first_class_declaration subclass_comment name"
  then obtain before decl where a: "subclass_comment = before @ decl"
      "before = [] \<or> \<not> is_word (last before)" "class_declaration decl name"
    unfolding first_class_declaration_def by blast
  from class_declaration_keyword [OF a(3)] obtain r where "decl = ''class'' @ r" by blast
  then have "before = ''# sub''" using a(1) subclass_comment_keyword by blast
  then show False using a(2) by (simp add: is_word_def)
qed

lemma subclass_comment_extract: "extract_class_name subclass_comment = Inr ''Foo''"
  by (simp add: pattern_defs subclass_comment_def)

section \<open>Lemmas on the request for a fix\<close>



section \<open>Lemmas on the order of concatenation\<close>





section \<open>The claims\<close>

subsection \<open>C1: which errors leave \<^verbatim>\<open>generate_video\<close>\<close>

text \<open>
  C1, as the code has it. The errors of rendering a chapter (whatever
  \<^verbatim>\<open>create_video_from_code\<close> raises, and the missing video file) are caught inside the loop:
  an exception that leaves \<^verbatim>\<open>generate_video\<close> is always one that a backend of the language
  model raised. The requests themselves are not guarded. When the request for the scene
  code of a chapter fails, the exception leaves the loop over the chapters at once and no
  later chapter is processed; when the request for repaired code fails after the first
  failed render, the exception leaves the loop of attempts. When no backend ever fails,
  \<^verbatim>\<open>generate_video\<close> returns a result.
\<close>

theorem only_backend_errors_escape:
  "(fst (generate_video E concept w) = Inl e \<longrightarrow> backend_raises E e) \<and>
   (\<forall>i chapter rest vf e' w1. generate_manim_code E chapter w = (Inl e', w1)
      \<longrightarrow> for_chapters E i (chapter # rest) vf w = (Inl e', w1)) \<and>
   (\<forall>i c vf e1 w1 e' w2.
      try_render E c (i + 1) w = (Inl e1, w1) \<and> fix_manim_code E (str_exn E e1) c w1 = (Inl e', w2)
      \<longrightarrow> while_attempts E i c 0 False vf w = (Inl e', w2)) \<and>
   ((\<forall>e'. \<not> backend_raises E e') \<longrightarrow> (\<exists>r. fst (generate_video E concept w) = Inr r))"
proof (intro conjI allI impI)
  assume "fst (generate_video E concept w) = Inl e"
  then show "backend_raises E e" using generate_video_Inl [of E concept w e] by (metis prod.collapse)
next
  fix i ch rest vf e' w1
  assume "generate_manim_code E ch w = (Inl e', w1)"
  then show "for_chapters E i (ch # rest) vf w = (Inl e', w1)"
    by (simp add: chapter_body_def)
next
  fix i c vf e1 w1 e' w2
  assume "try_render E c (i + 1) w = (Inl e1, w1) \<and> fix_manim_code E (str_exn E e1) c w1 = (Inl e', w2)"
  then show "while_attempts E i c 0 False vf w = (Inl e', w2)"
    by (simp add: while_attempts_unfold)
next
  assume n: "\<forall>e'. \<not> backend_raises E e'"
  show "\<exists>r. fst (generate_video E concept w) = Inr r"
  proof (cases "fst (generate_video E concept w)")
    case (Inl e)
    then have "backend_raises E e" using generate_video_Inl [of E concept w e] by (metis prod.collapse)
    then show ?thesis using n by blast
  next
    case (Inr r)
    then show ?thesis by blast
  qed
qed

text \<open>
  The three cases on stubs: a backend for scene code that fails, a tool that fails together
  with a backend for repairs that fails, and backends that all answer.
\<close>

theorem only_backend_errors_escape_witness:
  "backend_raises ((stub_env [chapter_A])\<lparr>manim_backend := no_answer\<rparr>)
     (AgentError manim_agent ''no answer'') \<and>
   fst (for_chapters ((stub_env [chapter_A])\<lparr>manim_backend := no_answer\<rparr>) 0
          [chapter_A, chapter_A] [] world0) = Inl (AgentError manim_agent ''no answer'') \<and>
   fst (while_attempts ((stub_env [chapter_A])\<lparr>manim := failing_tool,
             fixer_backend := no_answer\<rparr>) 0 ''class FooScene(Scene):'' 0 False [] world0)
     = Inl (AgentError code_fixer_agent ''no answer'') \<and>
   (\<exists>r. fst (generate_video (stub_env [chapter_A]) ''gravity'' world0) = Inr r)"
proof -
  let ?E1 = "(stub_env [chapter_A])\<lparr>manim_backend := no_answer\<rparr>"
  let ?E2 = "(stub_env [chapter_A])\<lparr>manim := failing_tool, fixer_backend := no_answer\<rparr>"
  have 1: "fst (generate_video ?E1 ''gravity'' world0) = Inl (AgentError manim_agent ''no answer'')"
    by (simp add: model_defs stub_env_def world0_def chapter_A_def)
  have a: "backend_raises ?E1 (AgentError manim_agent ''no answer'')"
    using only_backend_errors_escape [of ?E1 "''gravity''" world0 "AgentError manim_agent ''no answer''"] 1
    by blast
  have b: "fst (for_chapters ?E1 0 [chapter_A, chapter_A] [] world0) = Inl (AgentError manim_agent ''no answer'')"
    using only_backend_errors_escape [of ?E1 "''gravity''" world0 "AgentError manim_agent ''no answer''"] gen_fails
    by (metis fst_conv)
  obtain w1 where r: "try_render ?E2 ''class FooScene(Scene):'' (0 + 1) world0
     = (Inl (CalledProcessError 1 (manim_command ''/tmp/tmp0.py'') [] ''NameError''), w1)"
    using render_fails [of "''class FooScene(Scene):''"] by (metis prod.collapse)
  obtain w2 where f: "fix_manim_code ?E2 (str_exn ?E2 (CalledProcessError 1 (manim_command ''/tmp/tmp0.py'') [] ''NameError''))
     ''class FooScene(Scene):'' w1 = (Inl (AgentError code_fixer_agent ''no answer''), w2)"
    using fix_fails by (metis prod.collapse)
  have c: "fst (while_attempts ?E2 0 ''class FooScene(Scene):'' 0 False [] world0)
     = Inl (AgentError code_fixer_agent ''no answer'')"
    using only_backend_errors_escape [of ?E2 "''gravity''" world0 "AgentError manim_agent ''no answer''"] r f
    by (metis fst_conv)
  have d: "\<exists>r. fst (generate_video (stub_env [chapter_A]) ''gravity'' world0) = Inr r"
    using only_backend_errors_escape [of "stub_env [chapter_A]" "''gravity''" world0 "AgentError manim_agent ''no answer''"]
      stub_never_raises by blast
  show ?thesis using a b c d by blast
qed

text \<open>
  C1, as the specification states it, fails: with a backend for scene code that raises,
  and with a failing tool and a backend for repairs that raises, the exception leaves
  \<^verbatim>\<open>generate_video\<close>.
\<close>

theorem backend_failure_escapes_counterexample:
  "fst (generate_video ((stub_env [chapter_A])\<lparr>manim_backend := no_answer\<rparr>)
          ''gravity'' world0) = Inl (AgentError manim_agent ''no answer'') \<and>
   fst (generate_video ((stub_env [chapter_A])\<lparr>manim := failing_tool,
             fixer_backend := no_answer\<rparr>)
          ''gravity'' world0) = Inl (AgentError code_fixer_agent ''no answer'')"
  by (simp add: model_defs stub_env_def world0_def chapter_A_def failing_tool_def)

subsection \<open>C2: the outline is not validated\<close>

text \<open>
  C2, as the code has it: \<^verbatim>\<open>generate_video_outline\<close> returns the outline of the backend
  as it is, with any number of chapters (none, or more than three): the count is not
  checked. It fails exactly when the backend raises, and then \<^verbatim>\<open>generate_video\<close> raises
  the same exception.
\<close>

theorem generate_video_outline_unvalidated:
  "(\<forall>outline. outline_backend E (emit (Run_Sync outline_agent concept) w) concept = Inr outline
      \<longrightarrow> fst (generate_video_outline E concept w) = Inr outline) \<and>
   (\<forall>msg. outline_backend E (emit (Run_Sync outline_agent concept) w) concept = Inl msg
      \<longrightarrow> fst (generate_video_outline E concept w) = Inl (AgentError outline_agent msg) \<and>
          fst (generate_video E concept w) = Inl (AgentError outline_agent msg))"
  by (simp add: generate_video_outline_def generate_video_def run_sync_def Let_def)

text \<open>
  An outline of four chapters is returned as it is, and a failing backend ends the run.
\<close>

theorem generate_video_outline_unvalidated_witness:
  "fst (generate_video_outline (stub_env [chapter_A, chapter_A, chapter_A, chapter_A]) ''gravity'' world0)
     = Inr \<lparr>outline_title = ''Gravity'', chapters = [chapter_A, chapter_A, chapter_A, chapter_A]\<rparr> \<and>
   fst (generate_video ((stub_env [])\<lparr>outline_backend := no_answer\<rparr>)
          ''gravity'' world0) = Inl (AgentError outline_agent ''no answer'')"
  using generate_video_outline_unvalidated
          [of "stub_env [chapter_A, chapter_A, chapter_A, chapter_A]" "''gravity''" world0]
        generate_video_outline_unvalidated
          [of "(stub_env [])\<lparr>outline_backend := no_answer\<rparr>" "''gravity''" world0]
  by (simp add: stub_env_def)

text \<open>
  C2, as the specification states it, fails: a backend that answers with an outline of no
  chapters gets that outline back from \<^verbatim>\<open>generate_video_outline\<close>, without an error.
\<close>

theorem outline_without_chapters_counterexample:
  "fst (generate_video_outline (stub_env []) ''gravity'' world0)
     = Inr \<lparr>outline_title = ''Gravity'', chapters = []\<rparr>"
  by (simp add: generate_video_outline_def run_sync_def stub_env_def Let_def)

subsection \<open>C3: the bound on attempts\<close>




subsection \<open>C4: combining the clips\<close>




subsection \<open>C5: the class name\<close>

text \<open>
  C5, as the code has it. \<^verbatim>\<open>extract_class_name\<close> returns a name exactly when that name is
  captured at the first place of the text where the pattern of line 89 stands: the letters
  \<^verbatim>\<open>class\<close> (which need not be a word of their own), white space, a name, and in
  parentheses exactly one identifier that ends in \<^verbatim>\<open>Scene\<close>, closed by \<^verbatim>\<open>):\<close>. It raises
  its \<^verbatim>\<open>ValueError\<close> exactly when the pattern stands nowhere in the text; for
  \<^verbatim>\<open>class FooScene(Scene):\<close> it returns \<^verbatim>\<open>FooScene\<close>. When the tool has run and the
  pattern stands nowhere in the text, the error is the result of the guarded render
  attempt in the loop, that is, a failed attempt of the chapter; no \<^verbatim>\<open>ValueError\<close> ever
  leaves \<^verbatim>\<open>generate_video\<close>.
\<close>

theorem extract_class_name_first_declaration:
  "(extract_class_name code_text = Inr name \<longleftrightarrow> first_pattern_text code_text name) \<and>
   (extract_class_name code_text = Inl e \<longleftrightarrow>
      no_pattern_text code_text \<and> e = ValueError ''Could not extract class name from Manim code.'') \<and>
   extract_class_name ''class FooScene(Scene):'' = Inr ''FooScene'' \<and>
   (\<forall>E n w temp_file_name w1 w2 w3.
      no_pattern_text code_text \<and> named_temporary_file E w = (temp_file_name, w1) \<and>
      write_text E temp_file_name code_text w1 = (None, w2) \<and>
      run_manim E temp_file_name w2 = (None, w3)
      \<longrightarrow> try_render E code_text n w =
            (Inl (ValueError ''Could not extract class name from Manim code.''),
             cleanup temp_file_name w3)) \<and>
   (\<forall>E concept w msg. fst (generate_video E concept w) \<noteq> Inl (ValueError msg))"
proof (intro conjI allI impI)
  show "extract_class_name code_text = Inr name \<longleftrightarrow> first_pattern_text code_text name"
    by (rule extract_class_name_Inr)
  show "extract_class_name code_text = Inl e \<longleftrightarrow>
      no_pattern_text code_text \<and> e = ValueError ''Could not extract class name from Manim code.''"
    by (rule extract_class_name_Inl)
  show "extract_class_name ''class FooScene(Scene):'' = Inr ''FooScene''"
    by (simp add: pattern_defs)
next
  fix E n w temp_file_name w1 w2 w3
  assume a: "no_pattern_text code_text \<and> named_temporary_file E w = (temp_file_name, w1) \<and>
      write_text E temp_file_name code_text w1 = (None, w2) \<and>
      run_manim E temp_file_name w2 = (None, w3)"
  then have "extract_class_name code_text = Inl (ValueError ''Could not extract class name from Manim code.'')"
    by (simp add: extract_class_name_Inl)
  then show "try_render E code_text n w =
            (Inl (ValueError ''Could not extract class name from Manim code.''),
             cleanup temp_file_name w3)"
    using a by (simp add: try_render_def create_video_from_code_def)
next
  fix E concept w msg
  show "fst (generate_video E concept w) \<noteq> Inl (ValueError msg)"
  proof
    assume "fst (generate_video E concept w) = Inl (ValueError msg)"
    then have "backend_raises E (ValueError msg)"
      using generate_video_Inl [of E concept w "ValueError msg"] by (metis prod.collapse)
    then show False by (simp add: backend_raises_def)
  qed
qed

text \<open>
  A text in which the pattern stands and a text in which it does not, rendered with the
  stub tool.
\<close>

theorem extract_class_name_first_declaration_witness:
  "first_pattern_text ''class FooScene(Scene):'' ''FooScene'' \<and>
   no_pattern_text ''import manim'' \<and>
   fst (try_render (stub_env []) ''import manim'' 1 world0)
     = Inl (ValueError ''Could not extract class name from Manim code.'')"
proof -
  have 1: "extract_class_name ''class FooScene(Scene):'' = Inr ''FooScene''"
    by (simp add: pattern_defs)
  have 2: "extract_class_name ''import manim''
             = Inl (ValueError ''Could not extract class name from Manim code.'')"
    by (simp add: pattern_defs)
  have a: "first_pattern_text ''class FooScene(Scene):'' ''FooScene''"
    using extract_class_name_first_declaration [of "''class FooScene(Scene):''" "''FooScene''"] 1
    by blast
  note t = extract_class_name_first_declaration
             [of "''import manim''" _ "ValueError ''Could not extract class name from Manim code.''"]
  have b: "no_pattern_text ''import manim''" using t 2 by blast
  let ?E = "stub_env []"
  obtain tmp w1 where n: "named_temporary_file ?E world0 = (tmp, w1)" by fastforce
  obtain w2 where w: "write_text ?E tmp ''import manim'' w1 = (None, w2)"
    using stub_write_text [of "[]" tmp "''import manim''" w1] by (metis prod.collapse)
  obtain w3 where r: "run_manim ?E tmp w2 = (None, w3)"
    using stub_run_manim [of "[]" tmp w2] by (metis prod.collapse)
  have "try_render ?E ''import manim'' 1 world0 =
     (Inl (ValueError ''Could not extract class name from Manim code.''), cleanup tmp w3)"
    using t b n w r by blast
  then show ?thesis using a b by simp
qed

text \<open>
  C5, as the specification states it, fails. In the first text the first class declaration
  that subclasses a Scene base is \<^verbatim>\<open>A\<close>, with the bases \<^verbatim>\<open>Scene, Mixin\<close>, and the name
  returned is \<^verbatim>\<open>Main\<close>, that of the second declaration. In the second text the class
  \<^verbatim>\<open>A\<close> subclasses \<^verbatim>\<open>manim.Scene\<close>, and the extraction raises. The third text is a
  comment without a class declaration, and the extraction returns \<^verbatim>\<open>Foo\<close>.
\<close>

theorem first_declaration_counterexample:
  "first_class_declaration two_declarations ''A'' \<and>
   extract_class_name two_declarations = Inr ''Main'' \<and>
   first_class_declaration dotted_base ''A'' \<and>
   extract_class_name dotted_base = Inl (ValueError ''Could not extract class name from Manim code.'') \<and>
   \<not> first_class_declaration subclass_comment ''Foo'' \<and>
   extract_class_name subclass_comment = Inr ''Foo''"
proof (intro conjI)
  show "first_class_declaration two_declarations ''A''" by (rule two_declarations_first)
  show "extract_class_name two_declarations = Inr ''Main''"
    by (simp add: pattern_defs two_declarations_def)
  show "first_class_declaration dotted_base ''A''" by (rule dotted_base_first)
  show "extract_class_name dotted_base = Inl (ValueError ''Could not extract class name from Manim code.'')"
    by (simp add: pattern_defs dotted_base_def)
  show "\<not> first_class_declaration subclass_comment ''Foo''" by (rule subclass_comment_none)
  show "extract_class_name subclass_comment = Inr ''Foo''" by (rule subclass_comment_extract)
qed

subsection \<open>C6: the temporary file\<close>

text \<open>
  C6 does not hold on every exit path. The temporary file is created and written before
  the \<^verbatim>\<open>try\<close> statement whose \<^verbatim>\<open>finally\<close> clause removes it. In a locale whose encoding
  cannot encode the text, here one character beyond ASCII, \<^verbatim>\<open>temp_file.write(code)\<close> raises:
  the call ends with that exception, the one temporary file it created is still on disk
  and nothing was removed. The same call on a text that can be written leaves no
  temporary file behind.
\<close>

theorem temp_file_left_when_write_fails:
  "create_video_from_code ((stub_env [])\<lparr>temp_write := ascii_write\<rparr>)
       (''class FooScene(Scene): pass  # '' @ [CHR 0xE9]) 1 world0
     = (Inl (OtherError ''ascii codec cannot encode character''),
        \<lparr>disk = {''/tmp/tmp0.py''}, trace = [Temp_File ''/tmp/tmp0.py''], open_clips = []\<rparr>) \<and>
   ''/tmp/tmp0.py'' \<notin> disk (snd (create_video_from_code ((stub_env [])\<lparr>temp_write := ascii_write\<rparr>)
       ''class FooScene(Scene): pass'' 1 world0))"
  by (simp add: model_defs pattern_defs stub_env_def world0_def ascii_write_def)

subsection \<open>C7: the timeout\<close>

text \<open>
  C7: the timeout of the render is 60. When the child has not finished within 60 (it may
  never finish), the render attempt ends with \<^verbatim>\<open>TimeoutExpired\<close> as the result of the
  guarded call in the loop, that is, a failed attempt of the chapter: the child was started
  and then killed, and the temporary file is not on disk afterwards (it is removed unless
  the child removed it itself). No \<^verbatim>\<open>TimeoutExpired\<close> ever leaves \<^verbatim>\<open>generate_video\<close>.
\<close>

theorem render_timeout_handling:
  "render_timeout = 60 \<and>
   (\<forall>temp_file_name w1 w2 c.
      named_temporary_file E w = (temp_file_name, w1) \<and>
      write_text E temp_file_name code_text w1 = (None, w2) \<and>
      manim E w2 (manim_command temp_file_name) = Runs c \<and>
      \<not> finishes_within (run_time c) 60
      \<longrightarrow> (\<exists>w'. try_render E code_text n w =
                   (Inl (TimeoutExpired (manim_command temp_file_name) 60), w') \<and>
                temp_file_name \<notin> disk w' \<and>
                trace w' = trace w2 @ [Popen (manim_command temp_file_name), Kill] @
                  (if temp_file_name \<in> disk_after c then [Remove temp_file_name] else []))) \<and>
   (\<forall>E concept w command t. fst (generate_video E concept w) \<noteq> Inl (TimeoutExpired command t))"
proof (intro conjI allI impI)
  show "render_timeout = 60" by (simp add: render_timeout_def)
next
  fix temp_file_name w1 w2 c
  assume a: "named_temporary_file E w = (temp_file_name, w1) \<and>
      write_text E temp_file_name code_text w1 = (None, w2) \<and>
      manim E w2 (manim_command temp_file_name) = Runs c \<and>
      \<not> finishes_within (run_time c) 60"
  let ?w3 = "emit Kill ((emit (Popen (manim_command temp_file_name)) w2)\<lparr>disk := disk_after c\<rparr>)"
  have r: "run_manim E temp_file_name w2 = (Some (TimeoutExpired (manim_command temp_file_name) 60), ?w3)"
    using a run_manim_timeout by blast
  have "try_render E code_text n w =
      (Inl (TimeoutExpired (manim_command temp_file_name) 60), cleanup temp_file_name ?w3)"
    using a r by (simp add: try_render_def create_video_from_code_def)
  moreover have "temp_file_name \<notin> disk (cleanup temp_file_name ?w3)"
    by (rule cleanup_facts(5))
  moreover have "trace (cleanup temp_file_name ?w3) =
     trace w2 @ [Popen (manim_command temp_file_name), Kill] @
                  (if temp_file_name \<in> disk_after c then [Remove temp_file_name] else [])"
    by (simp add: trace_cleanup)
  ultimately show "\<exists>w'. try_render E code_text n w =
                   (Inl (TimeoutExpired (manim_command temp_file_name) 60), w') \<and>
                temp_file_name \<notin> disk w' \<and>
                trace w' = trace w2 @ [Popen (manim_command temp_file_name), Kill] @
                  (if temp_file_name \<in> disk_after c then [Remove temp_file_name] else [])"
    by blast
next
  fix E concept w command t
  show "fst (generate_video E concept w) \<noteq> Inl (TimeoutExpired command t)"
  proof
    assume "fst (generate_video E concept w) = Inl (TimeoutExpired command t)"
    then have "backend_raises E (TimeoutExpired command t)"
      using generate_video_Inl [of E concept w "TimeoutExpired command t"] by (metis prod.collapse)
    then show False by (simp add: backend_raises_def)
  qed
qed

text \<open>
  A tool that never finishes: the attempt ends with the timeout, the child is killed and
  the temporary file removed.
\<close>

theorem render_timeout_handling_witness:
  "fst (try_render ((stub_env [])\<lparr>manim := hanging_tool\<rparr>) ''class FooScene(Scene):'' 1 world0)
     = Inl (TimeoutExpired (manim_command ''/tmp/tmp0.py'') 60) \<and>
   ''/tmp/tmp0.py'' \<notin> disk (snd (try_render ((stub_env [])\<lparr>manim := hanging_tool\<rparr>)
        ''class FooScene(Scene):'' 1 world0)) \<and>
   trace (snd (try_render ((stub_env [])\<lparr>manim := hanging_tool\<rparr>) ''class FooScene(Scene):'' 1 world0))
     = [Temp_File ''/tmp/tmp0.py'', Write_Text ''/tmp/tmp0.py'' ''class FooScene(Scene):'',
        Popen (manim_command ''/tmp/tmp0.py''), Kill, Remove ''/tmp/tmp0.py'']"
proof -
  let ?E = "(stub_env [])\<lparr>manim := hanging_tool\<rparr>"
  let ?w1 = "\<lparr>disk = {''/tmp/tmp0.py''}, trace = [Temp_File ''/tmp/tmp0.py''], open_clips = []\<rparr>"
  let ?w2 = "\<lparr>disk = {''/tmp/tmp0.py''}, trace = [Temp_File ''/tmp/tmp0.py'',
     Write_Text ''/tmp/tmp0.py'' ''class FooScene(Scene):''], open_clips = []\<rparr>"
  let ?c = "\<lparr>run_time = Never, returncode = 0, stdout = [], stderr = [], disk_after = {''/tmp/tmp0.py''}\<rparr>"
  have 1: "named_temporary_file ?E world0 = (''/tmp/tmp0.py'', ?w1)"
    by (simp add: named_temporary_file_def stub_env_def world0_def emit_def Let_def)
  have 2: "write_text ?E ''/tmp/tmp0.py'' ''class FooScene(Scene):'' ?w1 = (None, ?w2)"
    by (simp add: write_text_def stub_env_def emit_def)
  have 3: "manim ?E ?w2 (manim_command ''/tmp/tmp0.py'') = Runs ?c"
    by (simp add: hanging_tool_def)
  have 4: "\<not> finishes_within (run_time ?c) 60" by simp
  from render_timeout_handling [of ?E world0 "''class FooScene(Scene):''" 1] 1 2 3 4
  obtain w' where w': "try_render ?E ''class FooScene(Scene):'' 1 world0 =
                   (Inl (TimeoutExpired (manim_command ''/tmp/tmp0.py'') 60), w')"
     "''/tmp/tmp0.py'' \<notin> disk w'"
     "trace w' = trace ?w2 @ [Popen (manim_command ''/tmp/tmp0.py''), Kill] @
                  (if ''/tmp/tmp0.py'' \<in> disk_after ?c then [Remove ''/tmp/tmp0.py''] else [])"
    by blast
  show ?thesis using w' by simp
qed

subsection \<open>C8: the order of the clips\<close>



subsection \<open>C9: the path of a rendered clip\<close>

text \<open>
  C9: when \<^verbatim>\<open>create_video_from_code\<close> returns, the path is
  \<^verbatim>\<open>./media/videos/temp/480p15/<ClassName>.mp4\<close> for the class name extracted from the
  source text. Two successful calls on the same text return the same path, whatever the
  collaborators, the world and so the name of the temporary file are.
\<close>

theorem video_path_from_class_name:
  "(fst (create_video_from_code E code_text chapter_num w) = Inr video_path \<longrightarrow>
      (\<exists>class_name. extract_class_name code_text = Inr class_name \<and>
         video_path = ''./media/videos/temp/480p15/'' @ class_name @ ''.mp4'')) \<and>
   (fst (create_video_from_code E code_text chapter_num w) = Inr video_path \<and>
    fst (create_video_from_code E' code_text chapter_num' w2) = Inr video_path'
      \<longrightarrow> video_path' = video_path)"
proof (intro conjI impI)
  assume "fst (create_video_from_code E code_text chapter_num w) = Inr video_path"
  then show "\<exists>class_name. extract_class_name code_text = Inr class_name \<and>
         video_path = ''./media/videos/temp/480p15/'' @ class_name @ ''.mp4''"
    by (rule create_video_from_code_Inr)
next
  assume "fst (create_video_from_code E code_text chapter_num w) = Inr video_path \<and>
    fst (create_video_from_code E' code_text chapter_num' w2) = Inr video_path'"
  then show "video_path' = video_path"
    using create_video_from_code_Inr [of E code_text chapter_num w video_path]
      create_video_from_code_Inr [of E' code_text chapter_num' w2 video_path'] by auto
qed

text \<open>
  The same text rendered through two temporary files of different names.
\<close>

theorem video_path_from_class_name_witness:
  "fst (create_video_from_code ((stub_env [])\<lparr>temp_name := (temp_named ''/tmp/tmp0.py'')\<rparr>)
          ''class FooScene(Scene):'' 1 world0) = Inr ''./media/videos/temp/480p15/FooScene.mp4'' \<and>
   fst (create_video_from_code ((stub_env [])\<lparr>temp_name := (temp_named ''/tmp/other.py'')\<rparr>)
          ''class FooScene(Scene):'' 2 world0) = Inr ''./media/videos/temp/480p15/FooScene.mp4'' \<and>
   (\<exists>class_name. extract_class_name ''class FooScene(Scene):'' = Inr class_name \<and>
      ''./media/videos/temp/480p15/FooScene.mp4''
        = ''./media/videos/temp/480p15/'' @ class_name @ ''.mp4'')"
  using video_path_from_class_name
          [of "(stub_env [])\<lparr>temp_name := (temp_named ''/tmp/tmp0.py'')\<rparr>" "''class FooScene(Scene):''" 1
              world0 "''./media/videos/temp/480p15/FooScene.mp4''"
              "(stub_env [])\<lparr>temp_name := (temp_named ''/tmp/other.py'')\<rparr>" 2 world0
              "''./media/videos/temp/480p15/FooScene.mp4''"]
        stub_create [of "''/tmp/tmp0.py''" 1] stub_create [of "''/tmp/other.py''" 2]
  by blast

subsection \<open>C10: the path of the final video\<close>

text \<open>
  C10: when \<^verbatim>\<open>generate_video\<close> returns a path, it is \<^verbatim>\<open>final_video.mp4\<close>; the file was
  written during the run and is on disk. A later run that returns a path returns the same
  one and has written to it again.
\<close>

theorem final_video_path:
  assumes "generate_video E concept w = (Inr (Some p), w')"
  shows "p = ''final_video.mp4'' \<and> p \<in> disk w' \<and>
     (\<exists>before after. trace w' = trace w @ before @ [Write_Videofile ''final_video.mp4''] @ after) \<and>
     (\<forall>E2 concept2 p2 w2. generate_video E2 concept2 w' = (Inr (Some p2), w2) \<longrightarrow>
        p2 = p \<and> p2 \<in> disk w2 \<and>
        (\<exists>before after. trace w2 = trace w' @ before @ [Write_Videofile p] @ after))"
  using generate_video_Some [OF assms] generate_video_Some by blast

text \<open>
  Two runs, one after the other.
\<close>

theorem final_video_path_witness:
  "fst (generate_video (stub_env [chapter_A]) ''gravity'' world0) = Inr (Some ''final_video.mp4'') \<and>
   ''final_video.mp4'' \<in> disk (snd (generate_video (stub_env [chapter_A]) ''gravity'' world0)) \<and>
   fst (generate_video (stub_env [chapter_A]) ''tides''
      (snd (generate_video (stub_env [chapter_A]) ''gravity'' world0)))
     = Inr (Some ''final_video.mp4'') \<and>
   ''final_video.mp4'' \<in> disk (snd (generate_video (stub_env [chapter_A]) ''tides''
      (snd (generate_video (stub_env [chapter_A]) ''gravity'' world0))))"
proof -
  let ?E = "stub_env [chapter_A]"
  obtain w1 where 1: "generate_video ?E ''gravity'' world0 = (Inr (Some ''final_video.mp4''), w1)"
    using stub_run by blast
  obtain w2 where 2: "generate_video ?E ''tides'' w1 = (Inr (Some ''final_video.mp4''), w2)"
    using stub_run_again 1 by (metis prod.collapse snd_conv)
  from final_video_path [OF 1] 2
  have "''final_video.mp4'' \<in> disk w1 \<and> ''final_video.mp4'' \<in> disk w2" by blast
  then show ?thesis using 1 2 by simp
qed

end
